theory Spec2Isabelle
  imports Main "HOL-Library.AList"
begin

section \<open>Values, documents and exceptions\<close>

text \<open>
  A Python \<open>str\<close> is a \<open>string\<close>: one list element per character, so that
  \<open>length\<close> is Python's \<open>len\<close> and \<open>take n\<close> is the slice \<open>[:n]\<close>.

  \<open>Exception m\<close> stands for any exception that is not an \<open>HTTPException\<close>, with
  \<open>str(e) = m\<close>; \<open>HTTPException code detail\<close> is FastAPI's exception.
\<close>

datatype exn = Exception string | HTTPException nat string

datatype bson =
    Null
  | Str string
  | Arr "bson list"
  | Doc "(string \<times> bson) list"
  | Datetime int
  | ObjectId nat

type_synonym document = "(string \<times> bson) list"

fun digit_char :: "nat \<Rightarrow> char" where
  "digit_char n = char_of (48 + n)"

function str_nat :: "nat \<Rightarrow> string" where
  "str_nat n = (if n < 10 then [digit_char n] else str_nat (n div 10) @ [digit_char (n mod 10)])"
  by pat_completeness auto
termination
  by (relation "measure id") auto

declare str_nat.simps [simp del]

text \<open>\<open>str(e)\<close>; for an \<open>HTTPException\<close> it is the framework's \<open>"{status_code}: {detail}"\<close>.\<close>

fun str :: "exn \<Rightarrow> string" where
  "str (Exception m) = m"
| "str (HTTPException code detail) = str_nat code @ '': '' @ detail"

section \<open>The document store behind the handle \<open>db\<close>\<close>

text \<open>
  \<open>db\<close> is imported from the module \<open>database\<close>; it is either \<open>None\<close> or a handle
  to a document store. The handle and the store are kept apart: the handle is fixed
  when the process starts, the store is the state that the operations read and write.

  Of the handle only \<open>truth\<close> matters: what \<open>bool(db)\<close> evaluates to. It is decided
  by the class of the handle, which the module \<open>database\<close> chooses, so it is a
  parameter of the model. A database handle of the MongoDB driver, whose operations the
  routes call, raises on it.

  The store is modelled as
  \<^item> \<open>colls\<close>: the documents of each collection that exists, in insertion order;
  \<^item> \<open>next_id\<close>: the next storage-assigned \<open>_id\<close>;
  \<^item> \<open>pending\<close>: the outcome of the coming server round trips, in order:
    \<open>Some m\<close> makes the next operation raise an exception with message \<open>m\<close> and leaves
    the data as it is, \<open>None\<close> lets it succeed; when the list is exhausted every
    operation succeeds.
\<close>

record handle =
  truth :: "exn + bool"

record store =
  colls :: "(string \<times> document list) list"
  next_id :: nat
  pending :: "string option list"

text \<open>\<open>bool(db)\<close>: \<open>None\<close> is false, a handle answers for itself.\<close>

definition bool_db :: "handle option \<Rightarrow> exn + bool" where
  "bool_db db = (case db of None \<Rightarrow> Inr False | Some h \<Rightarrow> truth h)"

definition collection :: "store \<Rightarrow> string \<Rightarrow> document list" where
  "collection s n = (case map_of (colls s) n of None \<Rightarrow> [] | Some ds \<Rightarrow> ds)"

definition healthy :: "store \<Rightarrow> bool" where
  "healthy s = (pending s = [])"

text \<open>One server round trip: consume the next scheduled outcome.\<close>

definition round_trip :: "store \<Rightarrow> string option \<times> store" where
  "round_trip s =
     (case pending s of
        [] \<Rightarrow> (None, s)
      | out # rest \<Rightarrow> (out, s\<lparr>pending := rest\<rparr>))"

text \<open>The query \<open>{field: value}\<close> for a string value: the field equals the value, or is
  an array that contains it.\<close>

fun matches :: "string \<Rightarrow> string \<Rightarrow> document \<Rightarrow> bool" where
  "matches field v d =
     (case map_of d field of
        Some (Str w) \<Rightarrow> w = v
      | Some (Arr xs) \<Rightarrow> Str v \<in> set xs
      | _ \<Rightarrow> False)"

text \<open>The projection \<open>{"_id": 0}\<close>.\<close>

definition without_id :: "document \<Rightarrow> document" where
  "without_id d = AList.delete ''_id'' d"

text \<open>\<open>collection.count_documents({})\<close>\<close>

definition count_documents :: "string \<Rightarrow> store \<Rightarrow> (exn + nat) \<times> store" where
  "count_documents n s =
     (case round_trip s of
        (Some m, s') \<Rightarrow> (Inl (Exception m), s')
      | (None, s') \<Rightarrow> (Inr (length (collection s' n)), s'))"

text \<open>\<open>list(collection.find({}, {"_id": 0}))\<close>\<close>

definition find_all :: "string \<Rightarrow> store \<Rightarrow> (exn + document list) \<times> store" where
  "find_all n s =
     (case round_trip s of
        (Some m, s') \<Rightarrow> (Inl (Exception m), s')
      | (None, s') \<Rightarrow> (Inr (map without_id (collection s' n)), s'))"

text \<open>\<open>collection.find_one({field: v}, {"_id": 0})\<close>: the first match, or \<open>None\<close>.\<close>

definition find_one :: "string \<Rightarrow> string \<Rightarrow> string \<Rightarrow> store \<Rightarrow> (exn + document option) \<times> store" where
  "find_one n field v s =
     (case round_trip s of
        (Some m, s') \<Rightarrow> (Inl (Exception m), s')
      | (None, s') \<Rightarrow>
          (Inr (map_option without_id (find (matches field v) (collection s' n))), s'))"

definition put_collection :: "string \<Rightarrow> document list \<Rightarrow> store \<Rightarrow> store" where
  "put_collection n ds s = s\<lparr>colls := AList.update n ds (colls s)\<rparr>"

text \<open>\<open>collection.insert_one(d)\<close> for a document without \<open>_id\<close>: the store assigns one.\<close>

definition insert_one :: "string \<Rightarrow> document \<Rightarrow> store \<Rightarrow> (exn + nat) \<times> store" where
  "insert_one n d s =
     (case round_trip s of
        (Some m, s') \<Rightarrow> (Inl (Exception m), s')
      | (None, s') \<Rightarrow>
          (Inr (next_id s'),
           (put_collection n (collection s' n @ [(''_id'', ObjectId (next_id s')) # d]) s')
             \<lparr>next_id := Suc (next_id s')\<rparr>))"

text \<open>\<open>$set\<close>: every field of the update is written, the other fields stay.\<close>

fun set_fields :: "document \<Rightarrow> document \<Rightarrow> document" where
  "set_fields [] d = d"
| "set_fields ((k, v) # kvs) d = set_fields kvs (AList.update k v d)"

text \<open>Apply \<open>f\<close> to the first document that satisfies \<open>p\<close>, if there is one.\<close>

fun update_first :: "(document \<Rightarrow> bool) \<Rightarrow> (document \<Rightarrow> document) \<Rightarrow> document list \<Rightarrow> document list" where
  "update_first p f [] = []"
| "update_first p f (d # ds) = (if p d then f d # ds else d # update_first p f ds)"

text \<open>
  \<open>collection.update_one({field: v}, {"$set": st, "$setOnInsert": soi}, upsert=True)\<close>:
  one atomic write. The first matching document gets \<open>$set\<close>; when none matches, a new
  document is inserted, built from the query's equality field, \<open>$set\<close> and
  \<open>$setOnInsert\<close>, with a fresh \<open>_id\<close>.
\<close>

definition update_one_upsert ::
  "string \<Rightarrow> string \<Rightarrow> string \<Rightarrow> document \<Rightarrow> document \<Rightarrow> store \<Rightarrow> (exn + unit) \<times> store" where
  "update_one_upsert n field v st soi s =
     (case round_trip s of
        (Some m, s') \<Rightarrow> (Inl (Exception m), s')
      | (None, s') \<Rightarrow>
          (case find (matches field v) (collection s' n) of
             Some _ \<Rightarrow>
               (Inr (),
                put_collection n (update_first (matches field v) (set_fields st) (collection s' n)) s')
           | None \<Rightarrow>
               (Inr (),
                (put_collection n
                   (collection s' n @
                      [set_fields soi (set_fields st [(''_id'', ObjectId (next_id s')), (field, Str v)])]) s')
                  \<lparr>next_id := Suc (next_id s')\<rparr>)))"

text \<open>\<open>db.list_collection_names()\<close>\<close>

definition list_collection_names :: "store \<Rightarrow> (exn + string list) \<times> store" where
  "list_collection_names s =
     (case round_trip s of
        (Some m, s') \<Rightarrow> (Inl (Exception m), s')
      | (None, s') \<Rightarrow> (Inr (map fst (colls s')), s'))"

section \<open>Schemas\<close>

record CourseCategory =
  slug :: string
  title :: string
  blurb :: string
  highlights :: "string list option"
  color :: "string option"
  accent :: "string option"

record Staff =
  name :: string
  role :: string
  bio :: "string option"
  avatar :: "string option"
  socials :: "(string \<times> string) list option"

text \<open>The fields \<open>name\<close> and \<open>email\<close> of \<open>ContactMessage\<close> and \<open>name\<close> of
  \<open>Subscription\<close> carry a prefix, since \<open>Staff\<close> has taken \<open>name\<close>.\<close>

record ContactMessage =
  contact_name :: string
  contact_email :: string
  message :: string
  topic :: "string option"

record Subscription =
  email :: string
  subscriber_name :: "string option"
  interests :: "string list option"

record MessageResponse =
  status :: string
  detail :: string

definition opt_str :: "string option \<Rightarrow> bson" where
  "opt_str x = (case x of None \<Rightarrow> Null | Some v \<Rightarrow> Str v)"

definition opt_strs :: "string list option \<Rightarrow> bson" where
  "opt_strs x = (case x of None \<Rightarrow> Null | Some vs \<Rightarrow> Arr (map Str vs))"

definition opt_dict :: "(string \<times> string) list option \<Rightarrow> bson" where
  "opt_dict x = (case x of None \<Rightarrow> Null | Some kvs \<Rightarrow> Doc (map (\<lambda>(k, v). (k, Str v)) kvs))"

text \<open>\<open>model_dump()\<close> of each schema: the fields in declaration order.\<close>

definition CourseCategory_model_dump :: "CourseCategory \<Rightarrow> document" where
  "CourseCategory_model_dump c =
     [(''slug'', Str (slug c)), (''title'', Str (title c)), (''blurb'', Str (blurb c)),
      (''highlights'', opt_strs (highlights c)), (''color'', opt_str (color c)),
      (''accent'', opt_str (accent c))]"

definition Staff_model_dump :: "Staff \<Rightarrow> document" where
  "Staff_model_dump m =
     [(''name'', Str (name m)), (''role'', Str (role m)), (''bio'', opt_str (bio m)),
      (''avatar'', opt_str (avatar m)), (''socials'', opt_dict (socials m))]"

definition ContactMessage_model_dump :: "ContactMessage \<Rightarrow> document" where
  "ContactMessage_model_dump m =
     [(''name'', Str (contact_name m)), (''email'', Str (contact_email m)),
      (''message'', Str (message m)), (''topic'', opt_str (topic m))]"

definition Subscription_model_dump :: "Subscription \<Rightarrow> document" where
  "Subscription_model_dump b =
     [(''email'', Str (email b)), (''name'', opt_str (subscriber_name b)),
      (''interests'', opt_strs (interests b))]"

subsection \<open>Validation of a contact form\<close>

text \<open>
  The constraints of \<open>ContactMessage\<close>: \<open>name\<close> has \<open>min_length=2\<close>, \<open>message\<close> has
  \<open>min_length=10\<close> and \<open>max_length=2000\<close>, \<open>email\<close> is an \<open>EmailStr\<close>. The address
  check belongs to a library; it is the parameter \<open>email_str\<close>, which returns the
  normalised address or \<open>None\<close>.
\<close>

datatype field_error =
    string_too_short string
  | string_too_long string
  | value_error string

definition ContactMessage_errors ::
  "(string \<Rightarrow> string option) \<Rightarrow> string \<Rightarrow> string \<Rightarrow> string \<Rightarrow> field_error list" where
  "ContactMessage_errors email_str n e m =
     (if length n < 2 then [string_too_short ''name''] else []) @
     (if email_str e = None then [value_error ''email''] else []) @
     (if length m < 10 then [string_too_short ''message'']
      else if 2000 < length m then [string_too_long ''message''] else [])"

definition ContactMessage_validate ::
  "(string \<Rightarrow> string option) \<Rightarrow> string \<Rightarrow> string \<Rightarrow> string \<Rightarrow> string option
     \<Rightarrow> field_error list + ContactMessage" where
  "ContactMessage_validate email_str n e m t =
     (case (ContactMessage_errors email_str n e m, email_str e) of
        ([], Some e') \<Rightarrow>
          Inr \<lparr>contact_name = n, contact_email = e', message = m, topic = t\<rparr>
      | (errs, _) \<Rightarrow> Inl errs)"

section \<open>The helper \<open>create_document\<close>\<close>

text \<open>
  Modelled from the spec: \<open>create_document(collection_name, data)\<close> is defined in the
  module \<open>database\<close>. The specification describes it as the insert of the document
  store adapter: each call is an independent write of one record, a pure insert without
  dedup that always creates a new record, to which the storage assigns its id; with no
  database configured a write fails outright. The specification gives no text for that
  failure; the text of the guard in \<open>subscribe\<close> is used. A schema object is passed
  as its \<open>model_dump()\<close>.
\<close>

definition create_document ::
  "handle option \<Rightarrow> string \<Rightarrow> document \<Rightarrow> store \<Rightarrow> (exn + nat) \<times> store" where
  "create_document db collection_name data s =
     (case db of
        None \<Rightarrow> (Inl (Exception ''Database not available''), s)
      | Some _ \<Rightarrow> insert_one collection_name data s)"

section \<open>Seeders\<close>

definition seed :: "CourseCategory list" where
  "seed =
     [\<lparr>slug = ''web-development'', title = ''Web Development'',
       blurb = ''Build modern, responsive websites and web apps from scratch.'',
       highlights = Some [''HTML, CSS, JS'', ''React & Tailwind'', ''APIs & Auth''],
       color = Some ''#22c55e'', accent = Some ''#10b981''\<rparr>,
      \<lparr>slug = ''ai-programming'', title = ''AI Programming'',
       blurb = ''Learn Python for AI, machine learning, and practical LLM apps.'',
       highlights = Some [''Python & NumPy'', ''ML & LLMs'', ''Model Deployment''],
       color = Some ''#a855f7'', accent = Some ''#8b5cf6''\<rparr>,
      \<lparr>slug = ''robotics'', title = ''Robotics'',
       blurb = ''Program and control robots with sensors, motion, and autonomy.'',
       highlights = Some [''ROS Basics'', ''Sensors & Control'', ''Path Planning''],
       color = Some ''#0ea5e9'', accent = Some ''#38bdf8''\<rparr>,
      \<lparr>slug = ''drone'', title = ''Drone Programming'',
       blurb = ''Build and pilot drones, master flight control and computer vision.'',
       highlights = Some [''PX4 & MAVSDK'', ''Stabilization'', ''Aerial CV''],
       color = Some ''#22d3ee'', accent = Some ''#06b6d4''\<rparr>,
      \<lparr>slug = ''3d-printing'', title = ''3D Product & Printing'',
       blurb = ''Design 3D models and turn ideas into physical prototypes.'',
       highlights = Some [''Fusion/Blender'', ''Slicing & Materials'', ''Rapid Prototyping''],
       color = Some ''#f59e0b'', accent = Some ''#fbbf24''\<rparr>]"

definition team :: "Staff list" where
  "team =
     [\<lparr>name = ''Ava Chen'', role = ''Head of AI'',
       bio = Some ''Leads our AI track with 8+ years in ML and LLM apps.'',
       avatar = Some ''https://i.pravatar.cc/150?img=1'',
       socials = Some [(''twitter'', ''https://twitter.com/avachen'')]\<rparr>,
      \<lparr>name = ''Miguel Torres'', role = ''Robotics Lead'',
       bio = Some ''ROS expert building autonomous ground and aerial robots.'',
       avatar = Some ''https://i.pravatar.cc/150?img=5'',
       socials = Some [(''github'', ''https://github.com/miguelt'')]\<rparr>,
      \<lparr>name = ''Sara Patel'', role = ''Web Instructor'',
       bio = Some ''Front-end engineer focused on React and delightful UX.'',
       avatar = Some ''https://i.pravatar.cc/150?img=11'',
       socials = Some [(''linkedin'', ''https://linkedin.com/in/sarapatel'')]\<rparr>]"

text \<open>The loop \<open>for d in docs: create_document(name, d)\<close>; an exception ends it.\<close>

fun create_documents ::
  "handle option \<Rightarrow> string \<Rightarrow> document list \<Rightarrow> store \<Rightarrow> (exn + unit) \<times> store" where
  "create_documents db n [] s = (Inr (), s)"
| "create_documents db n (d # ds) s =
     (case create_document db n d s of
        (Inl e, s') \<Rightarrow> (Inl e, s')
      | (Inr _, s') \<Rightarrow> create_documents db n ds s')"

definition ensure_categories_seeded :: "handle option \<Rightarrow> store \<Rightarrow> (exn + document list) \<times> store" where
  "ensure_categories_seeded db s =
     (case db of
        None \<Rightarrow> (Inr [], s)
      | Some _ \<Rightarrow>
          (case count_documents ''coursecategory'' s of
             (Inl e, s1) \<Rightarrow> (Inl e, s1)
           | (Inr c, s1) \<Rightarrow>
               (case (if c = 0
                      then create_documents db ''coursecategory''
                             (map CourseCategory_model_dump seed) s1
                      else (Inr (), s1)) of
                  (Inl e, s2) \<Rightarrow> (Inl e, s2)
                | (Inr _, s2) \<Rightarrow> find_all ''coursecategory'' s2)))"

definition ensure_staff_seeded :: "handle option \<Rightarrow> store \<Rightarrow> (exn + document list) \<times> store" where
  "ensure_staff_seeded db s =
     (case db of
        None \<Rightarrow> (Inr [], s)
      | Some _ \<Rightarrow>
          (case count_documents ''staff'' s of
             (Inl e, s1) \<Rightarrow> (Inl e, s1)
           | (Inr c, s1) \<Rightarrow>
               (case (if c = 0
                      then create_documents db ''staff'' (map Staff_model_dump team) s1
                      else (Inr (), s1)) of
                  (Inl e, s2) \<Rightarrow> (Inl e, s2)
                | (Inr _, s2) \<Rightarrow> find_all ''staff'' s2)))"

section \<open>Routes\<close>

text \<open>A route either returns a value or raises; \<open>except Exception as e\<close> turns what
  was raised into \<open>HTTPException(status_code=500, detail=str(e))\<close>.\<close>

record items_response =
  items :: "document list"

definition list_categories :: "handle option \<Rightarrow> store \<Rightarrow> (exn + items_response) \<times> store" where
  "list_categories db s =
     (case ensure_categories_seeded db s of
        (Inr data, s') \<Rightarrow> (Inr \<lparr>items = data\<rparr>, s')
      | (Inl e, s') \<Rightarrow> (Inl (HTTPException 500 (str e)), s'))"

text \<open>
  \<open>doc = db["coursecategory"].find_one({"slug": slug}, {"_id": 0}) if db else None\<close>
  tests \<open>bool(db)\<close>, which may itself raise; \<open>if not doc\<close> holds for \<open>None\<close> and for an
  empty document. \<open>except HTTPException: raise\<close> comes before \<open>except Exception\<close>.
\<close>

definition category_detail :: "handle option \<Rightarrow> string \<Rightarrow> store \<Rightarrow> (exn + document) \<times> store" where
  "category_detail db slug' s =
     (case
        (case ensure_categories_seeded db s of
           (Inl e, s1) \<Rightarrow> (Inl e, s1)
         | (Inr _, s1) \<Rightarrow>
             (case (case bool_db db of
                      Inl e \<Rightarrow> (Inl e, s1)
                    | Inr True \<Rightarrow> find_one ''coursecategory'' ''slug'' slug' s1
                    | Inr False \<Rightarrow> (Inr None, s1)) of
                (Inl e, s2) \<Rightarrow> (Inl e, s2)
              | (Inr doc, s2) \<Rightarrow>
                  (case doc of
                     None \<Rightarrow> (Inl (HTTPException 404 ''Category not found''), s2)
                   | Some d \<Rightarrow>
                       if d = [] then (Inl (HTTPException 404 ''Category not found''), s2)
                       else (Inr d, s2)))) of
        (Inr d, s') \<Rightarrow> (Inr d, s')
      | (Inl (HTTPException code msg), s') \<Rightarrow> (Inl (HTTPException code msg), s')
      | (Inl e, s') \<Rightarrow> (Inl (HTTPException 500 (str e)), s'))"

definition staff_list :: "handle option \<Rightarrow> store \<Rightarrow> (exn + items_response) \<times> store" where
  "staff_list db s =
     (case ensure_staff_seeded db s of
        (Inr data, s') \<Rightarrow> (Inr \<lparr>items = data\<rparr>, s')
      | (Inl e, s') \<Rightarrow> (Inl (HTTPException 500 (str e)), s'))"

definition contact :: "handle option \<Rightarrow> ContactMessage \<Rightarrow> store \<Rightarrow> (exn + MessageResponse) \<times> store" where
  "contact db m s =
     (case create_document db ''contactmessage'' (ContactMessage_model_dump m) s of
        (Inr _, s') \<Rightarrow>
          (Inr \<lparr>status = ''ok'', detail = ''Message received. We'' @ [CHR 0x27] @ ''ll be in touch!''\<rparr>, s')
      | (Inl e, s') \<Rightarrow> (Inl (HTTPException 500 (str e)), s'))"

text \<open>
  The route \<open>POST /api/contact\<close> declares its body as a \<open>ContactMessage\<close>: the body is
  validated first and \<open>contact\<close> runs only on a valid one. A rejected body is \<open>Inl\<close> of
  the field errors, and the store is not touched.
\<close>

definition post_contact ::
  "(string \<Rightarrow> string option) \<Rightarrow> handle option \<Rightarrow> string \<Rightarrow> string \<Rightarrow> string \<Rightarrow> string option
     \<Rightarrow> store \<Rightarrow> (field_error list + (exn + MessageResponse)) \<times> store" where
  "post_contact email_str db n e m t s =
     (case ContactMessage_validate email_str n e m t of
        Inl errs \<Rightarrow> (Inl errs, s)
      | Inr msg \<Rightarrow> (case contact db msg s of (r, s') \<Rightarrow> (Inr r, s')))"

text \<open>
  \<open>subscribe\<close> reads the clock twice: \<open>t_set\<close> is the \<open>utcnow()\<close> of \<open>updated_at\<close>,
  evaluated first, \<open>t_insert\<close> the one of \<open>created_at\<close>. The guard raises inside the
  \<open>try\<close>, so it reaches the same handler as an error of the store.
\<close>

definition subscribe ::
  "handle option \<Rightarrow> Subscription \<Rightarrow> int \<Rightarrow> int \<Rightarrow> store \<Rightarrow> (exn + MessageResponse) \<times> store" where
  "subscribe db body t_set t_insert s =
     (case
        (case db of
           None \<Rightarrow> (Inl (Exception ''Database not available''), s)
         | Some _ \<Rightarrow>
             update_one_upsert ''subscription'' ''email'' (email body)
               (Subscription_model_dump body @ [(''updated_at'', Datetime t_set)])
               [(''created_at'', Datetime t_insert)] s) of
        (Inr _, s') \<Rightarrow> (Inr \<lparr>status = ''ok'', detail = ''Subscribed successfully''\<rparr>, s')
      | (Inl e, s') \<Rightarrow> (Inl (HTTPException 500 (str e)), s'))"

text \<open>A sequence of \<open>subscribe\<close> calls, one after the other, each with its body and its
  two clock readings; the outcomes are collected in order.\<close>

fun subscribe_calls ::
  "handle option \<Rightarrow> (Subscription \<times> int \<times> int) list \<Rightarrow> store
     \<Rightarrow> (exn + MessageResponse) list \<times> store" where
  "subscribe_calls db [] s = ([], s)"
| "subscribe_calls db ((body, t_set, t_insert) # calls) s =
     (case subscribe db body t_set t_insert s of
        (r, s') \<Rightarrow> (case subscribe_calls db calls s' of (rs, s'') \<Rightarrow> (r # rs, s'')))"

subsection \<open>The diagnostic route\<close>

text \<open>
  The texts of the report begin with a pictograph, so each is a constructor:
  \<^item> \<open>Running\<close>: "(check mark) Running";
  \<^item> \<open>Not_Available\<close>: "(cross) Not Available";
  \<^item> \<open>Available\<close>: "(check mark) Available";
  \<^item> \<open>Connected_Working\<close>: "(check mark) Connected & Working";
  \<^item> \<open>Connected_but_Error m\<close>: "(warning sign)  Connected but Error: " followed by \<open>m\<close>;
  \<^item> \<open>Error m\<close>: "(cross) Error: " followed by \<open>m\<close>;
  \<^item> \<open>Is_Set\<close>: "(check mark) Set";
  \<^item> \<open>Not_Set\<close>: "(cross) Not Set".
\<close>

datatype report =
    Running
  | Not_Available
  | Available
  | Connected_Working
  | Connected_but_Error string
  | Error string
  | Is_Set
  | Not_Set

record diagnostic =
  backend :: report
  database :: report
  database_url :: "report option"
  database_name :: "report option"
  connection_status :: string
  collections :: "string list"

text \<open>\<open>os.getenv(k)\<close> on the environment \<open>env\<close>; a value counts as set when it is a
  non-empty string.\<close>

definition getenv :: "(string \<times> string) list \<Rightarrow> string \<Rightarrow> string option" where
  "getenv env k = map_of env k"

definition set_or_not :: "string option \<Rightarrow> report" where
  "set_or_not v = (case v of None \<Rightarrow> Not_Set | Some x \<Rightarrow> if x = [] then Not_Set else Is_Set)"

text \<open>The inner \<open>try\<close>: the names of the collections, at most ten of them.\<close>

definition test_database_inner :: "diagnostic \<Rightarrow> store \<Rightarrow> (exn + diagnostic) \<times> store" where
  "test_database_inner response s =
     (case list_collection_names s of
        (Inr cs, s') \<Rightarrow>
          (Inr (response\<lparr>collections := take 10 cs, database := Connected_Working\<rparr>), s')
      | (Inl e, s') \<Rightarrow>
          (Inr (response\<lparr>database := Connected_but_Error (take 50 (str e))\<rparr>), s'))"

text \<open>The body of the outer \<open>try\<close>. What it has written into \<open>response\<close> stays when it
  raises, so the response is returned on both sides.\<close>

definition test_database_body ::
  "(string \<times> string) list \<Rightarrow> handle option \<Rightarrow> diagnostic \<Rightarrow> store \<Rightarrow> (exn + unit) \<times> diagnostic \<times> store" where
  "test_database_body env db response s =
     (case db of
        None \<Rightarrow> (Inr (), response, s)
      | Some _ \<Rightarrow>
          (let r1 = response
                 \<lparr>database := Available,
                  database_url := Some (set_or_not (getenv env ''DATABASE_URL'')),
                  database_name := Some (set_or_not (getenv env ''DATABASE_NAME'')),
                  connection_status := ''Connected''\<rparr>
           in case test_database_inner r1 s of
                (Inr r2, s') \<Rightarrow> (Inr (), r2, s')
              | (Inl e, s') \<Rightarrow> (Inl e, r1, s')))"

definition test_database ::
  "(string \<times> string) list \<Rightarrow> handle option \<Rightarrow> store \<Rightarrow> (exn + diagnostic) \<times> store" where
  "test_database env db s =
     (let response =
            \<lparr>backend = Running, database = Not_Available, database_url = None,
             database_name = None, connection_status = ''Not Connected'', collections = []\<rparr>
      in case test_database_body env db response s of
           (Inr _, r, s') \<Rightarrow> (Inr r, s')
         | (Inl e, r, s') \<Rightarrow> (Inr (r\<lparr>database := Error (take 50 (str e))\<rparr>), s'))"

section \<open>Facts about the store operations\<close>

lemma round_trip_healthy: "healthy s \<Longrightarrow> round_trip s = (None, s)"
  by (simp add: healthy_def round_trip_def)

lemma round_trip_fails: "round_trip (s\<lparr>pending := Some m # rest\<rparr>) = (Some m, s\<lparr>pending := rest\<rparr>)"
  by (simp add: round_trip_def)

lemma round_trip_data:
  "round_trip s = (out, s') \<Longrightarrow> colls s' = colls s \<and> next_id s' = next_id s"
  by (auto simp: round_trip_def split: list.splits)

lemma collection_put_collection:
  "collection (put_collection n ds s) n' = (if n' = n then ds else collection s n')"
  by (simp add: collection_def put_collection_def update_conv')

lemma collection_next_id_update [simp]: "collection (s\<lparr>next_id := k\<rparr>) n = collection s n"
  by (simp add: collection_def)

lemma collection_pending_update [simp]: "collection (s\<lparr>pending := p\<rparr>) n = collection s n"
  by (simp add: collection_def)

lemma healthy_put_collection [simp]: "healthy (put_collection n ds s) = healthy s"
  by (simp add: healthy_def put_collection_def)

lemma healthy_next_id_update [simp]: "healthy (s\<lparr>next_id := k\<rparr>) = healthy s"
  by (simp add: healthy_def)

lemma next_id_put_collection [simp]: "next_id (put_collection n ds s) = next_id s"
  by (simp add: put_collection_def)

lemma collection_cong: "colls s' = colls s \<Longrightarrow> collection s' n = collection s n"
  by (simp add: collection_def)

lemma count_documents_data:
  "count_documents n s = (r, s') \<Longrightarrow> colls s' = colls s \<and> next_id s' = next_id s"
  by (auto simp: count_documents_def split: prod.splits option.splits dest: round_trip_data)

lemma find_all_data:
  "find_all n s = (r, s') \<Longrightarrow> colls s' = colls s \<and> next_id s' = next_id s"
  by (auto simp: find_all_def split: prod.splits option.splits dest: round_trip_data)

lemma count_documents_result:
  assumes a: "count_documents n s = (Inr c, s')"
  shows "c = length (collection s n)"
proof -
  obtain out s1 where rt: "round_trip s = (out, s1)" by (cases "round_trip s")
  from round_trip_data [OF rt] have "collection s1 n = collection s n"
    by (intro collection_cong) simp
  with a rt show ?thesis
    by (cases out) (simp_all add: count_documents_def)
qed

lemma find_all_result:
  assumes a: "find_all n s = (Inr ds, s')"
  shows "ds = map without_id (collection s n)"
proof -
  obtain out s1 where rt: "round_trip s = (out, s1)" by (cases "round_trip s")
  from round_trip_data [OF rt] have "collection s1 n = collection s n"
    by (intro collection_cong) simp
  with a rt show ?thesis
    by (cases out) (simp_all add: find_all_def)
qed

lemma count_documents_healthy:
  "healthy s \<Longrightarrow> count_documents n s = (Inr (length (collection s n)), s)"
  by (simp add: count_documents_def round_trip_healthy)

lemma find_all_healthy:
  "healthy s \<Longrightarrow> find_all n s = (Inr (map without_id (collection s n)), s)"
  by (simp add: find_all_def round_trip_healthy)

section \<open>No database configured\<close>

text \<open>
  Claim C5. When no database is configured (\<open>db\<close> is \<open>None\<close>), the category list and
  the staff list return \<open>{items: []}\<close> and do not fail; the store is not touched.
\<close>

theorem list_endpoints_without_database:
  "list_categories None s = (Inr \<lparr>items = []\<rparr>, s) \<and>
   staff_list None s = (Inr \<lparr>items = []\<rparr>, s)"
  by (simp add: list_categories_def staff_list_def ensure_categories_seeded_def
      ensure_staff_seeded_def)

text \<open>
  Claim C9. When no database is configured, the category detail lookup raises the
  not-found signal, status 404, for every slug, those of the seed catalog included:
  neither a store-unavailable signal nor a server error.
\<close>

theorem category_detail_without_database:
  "category_detail None sl s = (Inl (HTTPException 404 ''Category not found''), s)"
  by (simp add: category_detail_def ensure_categories_seeded_def bool_db_def)

section \<open>The diagnostic route returns for every store\<close>

text \<open>
  Claim C8. \<open>test_database\<close> never raises: for every environment, every handle (absent
  or present) and every store, whatever its operations are scheduled to do, it returns
  a diagnostic object, and an error text in it is at most 50 characters long. With no
  handle it reports "not available" and leaves the store alone; when listing the
  collections raises with text \<open>m\<close>, it reports "connected but error" with the first 50
  characters of \<open>m\<close>.
\<close>

theorem test_database_never_raises:
  "(\<exists>r. fst (test_database env db s) = Inr r \<and>
        (case database r of
           Connected_but_Error m \<Rightarrow> length m \<le> 50
         | Error m \<Rightarrow> length m \<le> 50
         | _ \<Rightarrow> True)) \<and>
   test_database env None s =
     (Inr \<lparr>backend = Running, database = Not_Available, database_url = None,
           database_name = None, connection_status = ''Not Connected'', collections = []\<rparr>, s) \<and>
   test_database env (Some h) (s\<lparr>pending := Some m # rest\<rparr>) =
     (Inr \<lparr>backend = Running, database = Connected_but_Error (take 50 m),
           database_url = Some (set_or_not (getenv env ''DATABASE_URL'')),
           database_name = Some (set_or_not (getenv env ''DATABASE_NAME'')),
           connection_status = ''Connected'', collections = []\<rparr>, s\<lparr>pending := rest\<rparr>)"
proof -
  have returns: "\<exists>r. fst (test_database env db s) = Inr r \<and>
        (case database r of
           Connected_but_Error m \<Rightarrow> length m \<le> 50
         | Error m \<Rightarrow> length m \<le> 50
         | _ \<Rightarrow> True)"
    by (auto simp: test_database_def test_database_body_def test_database_inner_def Let_def
        split: option.splits prod.splits sum.splits)
  have absent: "test_database env None s =
     (Inr \<lparr>backend = Running, database = Not_Available, database_url = None,
           database_name = None, connection_status = ''Not Connected'', collections = []\<rparr>, s)"
    by (simp add: test_database_def test_database_body_def)
  have raising: "test_database env (Some h) (s\<lparr>pending := Some m # rest\<rparr>) =
     (Inr \<lparr>backend = Running, database = Connected_but_Error (take 50 m),
           database_url = Some (set_or_not (getenv env ''DATABASE_URL'')),
           database_name = Some (set_or_not (getenv env ''DATABASE_NAME'')),
           connection_status = ''Connected'', collections = []\<rparr>, s\<lparr>pending := rest\<rparr>)"
    by (simp add: test_database_def test_database_body_def test_database_inner_def
        list_collection_names_def round_trip_fails)
  from returns absent raising show ?thesis by blast
qed

section \<open>Seeding touches an empty collection only\<close>

lemma ensure_categories_seeded_nonempty:
  assumes ne: "collection s ''coursecategory'' \<noteq> []"
  shows "colls (snd (ensure_categories_seeded (Some h) s)) = colls s \<and>
         next_id (snd (ensure_categories_seeded (Some h) s)) = next_id s \<and>
         (case fst (ensure_categories_seeded (Some h) s) of
            Inr ds \<Rightarrow> ds = map without_id (collection s ''coursecategory'')
          | Inl e \<Rightarrow> True)"
proof -
  obtain r1 s1 where c: "count_documents ''coursecategory'' s = (r1, s1)"
    by (cases "count_documents ''coursecategory'' s")
  from count_documents_data [OF c] have d1: "colls s1 = colls s" "next_id s1 = next_id s"
    by simp_all
  show ?thesis
  proof (cases r1)
    case (Inl e)
    with c d1 show ?thesis by (simp add: ensure_categories_seeded_def)
  next
    case (Inr k)
    with c ne have k: "k \<noteq> 0" by (auto dest: count_documents_result)
    obtain r2 s2 where f: "find_all ''coursecategory'' s1 = (r2, s2)"
      by (cases "find_all ''coursecategory'' s1")
    from find_all_data [OF f] d1 have d2: "colls s2 = colls s" "next_id s2 = next_id s"
      by simp_all
    from c Inr k f have run: "ensure_categories_seeded (Some h) s = (r2, s2)"
      by (simp add: ensure_categories_seeded_def)
    show ?thesis
    proof (cases r2)
      case (Inl e)
      with run d2 show ?thesis by simp
    next
      case (Inr ds)
      with f have "ds = map without_id (collection s1 ''coursecategory'')"
        by (simp add: find_all_result)
      then have "ds = map without_id (collection s ''coursecategory'')"
        by (simp add: collection_cong [OF d1(1)])
      with run d2 Inr show ?thesis by simp
    qed
  qed
qed

lemma ensure_categories_seeded_nonempty_healthy:
  assumes "collection s ''coursecategory'' \<noteq> []" and "healthy s"
  shows "ensure_categories_seeded (Some h) s = (Inr (map without_id (collection s ''coursecategory'')), s)"
  using assms by (simp add: ensure_categories_seeded_def count_documents_healthy find_all_healthy)

lemma ensure_staff_seeded_nonempty:
  assumes ne: "collection s ''staff'' \<noteq> []"
  shows "colls (snd (ensure_staff_seeded (Some h) s)) = colls s \<and>
         next_id (snd (ensure_staff_seeded (Some h) s)) = next_id s \<and>
         (case fst (ensure_staff_seeded (Some h) s) of
            Inr ds \<Rightarrow> ds = map without_id (collection s ''staff'')
          | Inl e \<Rightarrow> True)"
proof -
  obtain r1 s1 where c: "count_documents ''staff'' s = (r1, s1)"
    by (cases "count_documents ''staff'' s")
  from count_documents_data [OF c] have d1: "colls s1 = colls s" "next_id s1 = next_id s"
    by simp_all
  show ?thesis
  proof (cases r1)
    case (Inl e)
    with c d1 show ?thesis by (simp add: ensure_staff_seeded_def)
  next
    case (Inr k)
    with c ne have k: "k \<noteq> 0" by (auto dest: count_documents_result)
    obtain r2 s2 where f: "find_all ''staff'' s1 = (r2, s2)"
      by (cases "find_all ''staff'' s1")
    from find_all_data [OF f] d1 have d2: "colls s2 = colls s" "next_id s2 = next_id s"
      by simp_all
    from c Inr k f have run: "ensure_staff_seeded (Some h) s = (r2, s2)"
      by (simp add: ensure_staff_seeded_def)
    show ?thesis
    proof (cases r2)
      case (Inl e)
      with run d2 show ?thesis by simp
    next
      case (Inr ds)
      with f have "ds = map without_id (collection s1 ''staff'')"
        by (simp add: find_all_result)
      then have "ds = map without_id (collection s ''staff'')"
        by (simp add: collection_cong [OF d1(1)])
      with run d2 Inr show ?thesis by simp
    qed
  qed
qed

lemma ensure_staff_seeded_nonempty_healthy:
  assumes "collection s ''staff'' \<noteq> []" and "healthy s"
  shows "ensure_staff_seeded (Some h) s = (Inr (map without_id (collection s ''staff'')), s)"
  using assms by (simp add: ensure_staff_seeded_def count_documents_healthy find_all_healthy)

text \<open>
  Claim C3. A seeder writes only when its collection holds no record. When the
  collection holds at least one record, the seeder inserts nothing, whatever the store
  does: the collections and the id counter are as before, and what it returns, if it
  returns, is the current content of the collection (without \<open>_id\<close>). On a store whose
  operations succeed it does return, and the store is unchanged altogether. With no
  handle the store is not touched either.
\<close>

theorem seeding_skipped_when_nonempty:
  "(collection s ''coursecategory'' \<noteq> [] \<longrightarrow>
      colls (snd (ensure_categories_seeded (Some h) s)) = colls s \<and>
      next_id (snd (ensure_categories_seeded (Some h) s)) = next_id s \<and>
      (case fst (ensure_categories_seeded (Some h) s) of
         Inr ds \<Rightarrow> ds = map without_id (collection s ''coursecategory'')
       | Inl e \<Rightarrow> True) \<and>
      (healthy s \<longrightarrow>
         ensure_categories_seeded (Some h) s =
           (Inr (map without_id (collection s ''coursecategory'')), s))) \<and>
   (collection s ''staff'' \<noteq> [] \<longrightarrow>
      colls (snd (ensure_staff_seeded (Some h) s)) = colls s \<and>
      next_id (snd (ensure_staff_seeded (Some h) s)) = next_id s \<and>
      (case fst (ensure_staff_seeded (Some h) s) of
         Inr ds \<Rightarrow> ds = map without_id (collection s ''staff'')
       | Inl e \<Rightarrow> True) \<and>
      (healthy s \<longrightarrow>
         ensure_staff_seeded (Some h) s = (Inr (map without_id (collection s ''staff'')), s))) \<and>
   snd (ensure_categories_seeded None s) = s \<and>
   snd (ensure_staff_seeded None s) = s"
proof -
  have absent: "snd (ensure_categories_seeded None s) = s" "snd (ensure_staff_seeded None s) = s"
    by (simp_all add: ensure_categories_seeded_def ensure_staff_seeded_def)
  from ensure_categories_seeded_nonempty [of s h] ensure_categories_seeded_nonempty_healthy [of s h]
    ensure_staff_seeded_nonempty [of s h] ensure_staff_seeded_nonempty_healthy [of s h] absent
  show ?thesis by blast
qed

theorem seeding_skipped_when_nonempty_witness:
  "collection
     \<lparr>colls = [(''coursecategory'', [[(''_id'', ObjectId 0), (''slug'', Str ''robotics'')]]),
               (''staff'', [[(''_id'', ObjectId 1), (''name'', Str ''Ava Chen'')]])],
      next_id = 2, pending = []\<rparr> ''coursecategory'' \<noteq> [] \<and>
   ensure_categories_seeded (Some \<lparr>truth = Inr True\<rparr>)
     \<lparr>colls = [(''coursecategory'', [[(''_id'', ObjectId 0), (''slug'', Str ''robotics'')]]),
               (''staff'', [[(''_id'', ObjectId 1), (''name'', Str ''Ava Chen'')]])],
      next_id = 2, pending = []\<rparr> =
     (Inr [[(''slug'', Str ''robotics'')]],
      \<lparr>colls = [(''coursecategory'', [[(''_id'', ObjectId 0), (''slug'', Str ''robotics'')]]),
                (''staff'', [[(''_id'', ObjectId 1), (''name'', Str ''Ava Chen'')]])],
       next_id = 2, pending = []\<rparr>) \<and>
   ensure_staff_seeded (Some \<lparr>truth = Inr True\<rparr>)
     \<lparr>colls = [(''coursecategory'', [[(''_id'', ObjectId 0), (''slug'', Str ''robotics'')]]),
               (''staff'', [[(''_id'', ObjectId 1), (''name'', Str ''Ava Chen'')]])],
      next_id = 2, pending = []\<rparr> =
     (Inr [[(''name'', Str ''Ava Chen'')]],
      \<lparr>colls = [(''coursecategory'', [[(''_id'', ObjectId 0), (''slug'', Str ''robotics'')]]),
                (''staff'', [[(''_id'', ObjectId 1), (''name'', Str ''Ava Chen'')]])],
       next_id = 2, pending = []\<rparr>)"
  using seeding_skipped_when_nonempty
    [of "\<lparr>colls = [(''coursecategory'', [[(''_id'', ObjectId 0), (''slug'', Str ''robotics'')]]),
                   (''staff'', [[(''_id'', ObjectId 1), (''name'', Str ''Ava Chen'')]])],
          next_id = 2, pending = []\<rparr>" "\<lparr>truth = Inr True\<rparr>"]
  by (simp add: collection_def healthy_def without_id_def)

section \<open>The first list call seeds an empty collection\<close>

lemma insert_one_healthy:
  "healthy s \<Longrightarrow> insert_one n d s =
     (Inr (next_id s),
      (put_collection n (collection s n @ [(''_id'', ObjectId (next_id s)) # d]) s)
        \<lparr>next_id := Suc (next_id s)\<rparr>)"
  by (simp add: insert_one_def round_trip_healthy)

lemma create_documents_healthy:
  "healthy s \<Longrightarrow>
   \<exists>s'. create_documents (Some h) n ds s = (Inr (), s') \<and> healthy s' \<and>
        next_id s' = next_id s + length ds \<and>
        collection s' n =
          collection s n @ map (\<lambda>(i, d). (''_id'', ObjectId i) # d) (enumerate (next_id s) ds) \<and>
        (\<forall>n'. n' \<noteq> n \<longrightarrow> collection s' n' = collection s n')"
proof (induction ds arbitrary: s)
  case Nil
  then show ?case by simp
next
  case (Cons d ds)
  let ?s1 = "(put_collection n (collection s n @ [(''_id'', ObjectId (next_id s)) # d]) s)
        \<lparr>next_id := Suc (next_id s)\<rparr>"
  from Cons.prems have h1: "healthy ?s1" by simp
  from Cons.IH [OF h1] obtain s' where
    run: "create_documents (Some h) n ds ?s1 = (Inr (), s')" and hs: "healthy s'"
    and nid: "next_id s' = next_id ?s1 + length ds"
    and col: "collection s' n =
          collection ?s1 n @ map (\<lambda>(i, d). (''_id'', ObjectId i) # d) (enumerate (next_id ?s1) ds)"
    and oth: "\<forall>n'. n' \<noteq> n \<longrightarrow> collection s' n' = collection ?s1 n'"
    by blast
  from Cons.prems run have "create_documents (Some h) n (d # ds) s = (Inr (), s')"
    by (simp add: create_document_def insert_one_healthy)
  moreover from nid have "next_id s' = next_id s + length (d # ds)" by simp
  moreover from col have "collection s' n =
      collection s n @ map (\<lambda>(i, d). (''_id'', ObjectId i) # d) (enumerate (next_id s) (d # ds))"
    by (simp add: collection_put_collection)
  moreover from oth have "\<forall>n'. n' \<noteq> n \<longrightarrow> collection s' n' = collection s n'"
    by (simp add: collection_put_collection)
  ultimately show ?case using hs by blast
qed

lemma without_id_assigned:
  "\<forall>d \<in> set ds. ''_id'' \<notin> fst ` set d \<Longrightarrow>
   map without_id (map (\<lambda>(i, d). (''_id'', ObjectId i) # d) (enumerate k ds)) = ds"
  by (induction ds arbitrary: k) (simp_all add: without_id_def)

lemma seed_has_no_id: "\<forall>d \<in> set (map CourseCategory_model_dump seed). ''_id'' \<notin> fst ` set d"
  by (simp add: CourseCategory_model_dump_def)

lemma team_has_no_id: "\<forall>d \<in> set (map Staff_model_dump team). ''_id'' \<notin> fst ` set d"
  by (simp add: Staff_model_dump_def)

lemma length_seed: "length seed = 5"
  by (simp add: seed_def)

lemma length_team: "length team = 3"
  by (simp add: team_def)

lemma ensure_categories_seeded_empty:
  assumes hs: "healthy s" and em: "collection s ''coursecategory'' = []"
  shows "\<exists>s'. ensure_categories_seeded (Some h) s = (Inr (map CourseCategory_model_dump seed), s') \<and>
           healthy s' \<and>
           collection s' ''coursecategory'' =
             map (\<lambda>(i, d). (''_id'', ObjectId i) # d)
               (enumerate (next_id s) (map CourseCategory_model_dump seed)) \<and>
           (\<forall>n'. n' \<noteq> ''coursecategory'' \<longrightarrow> collection s' n' = collection s n')"
proof -
  from create_documents_healthy [OF hs, of h "''coursecategory''" "map CourseCategory_model_dump seed"]
  obtain s' where
    run: "create_documents (Some h) ''coursecategory'' (map CourseCategory_model_dump seed) s = (Inr (), s')"
    and hs': "healthy s'"
    and col: "collection s' ''coursecategory'' =
          collection s ''coursecategory'' @ map (\<lambda>(i, d). (''_id'', ObjectId i) # d)
            (enumerate (next_id s) (map CourseCategory_model_dump seed))"
    and oth: "\<forall>n'. n' \<noteq> ''coursecategory'' \<longrightarrow> collection s' n' = collection s n'"
    by blast
  from col em have col': "collection s' ''coursecategory'' =
      map (\<lambda>(i, d). (''_id'', ObjectId i) # d)
        (enumerate (next_id s) (map CourseCategory_model_dump seed))"
    by simp
  have "map without_id (collection s' ''coursecategory'') = map CourseCategory_model_dump seed"
    unfolding col' by (rule without_id_assigned [OF seed_has_no_id])
  with hs em run hs' have "ensure_categories_seeded (Some h) s = (Inr (map CourseCategory_model_dump seed), s')"
    by (simp add: ensure_categories_seeded_def count_documents_healthy find_all_healthy)
  with hs' col' oth show ?thesis by blast
qed

lemma ensure_staff_seeded_empty:
  assumes hs: "healthy s" and em: "collection s ''staff'' = []"
  shows "\<exists>s'. ensure_staff_seeded (Some h) s = (Inr (map Staff_model_dump team), s') \<and>
           healthy s' \<and>
           collection s' ''staff'' =
             map (\<lambda>(i, d). (''_id'', ObjectId i) # d)
               (enumerate (next_id s) (map Staff_model_dump team)) \<and>
           (\<forall>n'. n' \<noteq> ''staff'' \<longrightarrow> collection s' n' = collection s n')"
proof -
  from create_documents_healthy [OF hs, of h "''staff''" "map Staff_model_dump team"]
  obtain s' where
    run: "create_documents (Some h) ''staff'' (map Staff_model_dump team) s = (Inr (), s')"
    and hs': "healthy s'"
    and col: "collection s' ''staff'' =
          collection s ''staff'' @ map (\<lambda>(i, d). (''_id'', ObjectId i) # d)
            (enumerate (next_id s) (map Staff_model_dump team))"
    and oth: "\<forall>n'. n' \<noteq> ''staff'' \<longrightarrow> collection s' n' = collection s n'"
    by blast
  from col em have col': "collection s' ''staff'' =
      map (\<lambda>(i, d). (''_id'', ObjectId i) # d)
        (enumerate (next_id s) (map Staff_model_dump team))"
    by simp
  have "map without_id (collection s' ''staff'') = map Staff_model_dump team"
    unfolding col' by (rule without_id_assigned [OF team_has_no_id])
  with hs em run hs' have "ensure_staff_seeded (Some h) s = (Inr (map Staff_model_dump team), s')"
    by (simp add: ensure_staff_seeded_def count_documents_healthy find_all_healthy)
  with hs' col' oth show ?thesis by blast
qed

text \<open>
  Claim C2. On a store whose operations succeed, the first list call on an empty
  collection inserts exactly the records of the seed catalog, in order, each with a
  fresh \<open>_id\<close>, and returns them: five categories, three staff members. A second
  list call returns the same records and changes nothing in the store.
\<close>

theorem first_list_call_seeds:
  assumes "healthy s"
  shows
  "(collection s ''coursecategory'' = [] \<longrightarrow>
      fst (list_categories (Some h) s) = Inr \<lparr>items = map CourseCategory_model_dump seed\<rparr> \<and>
      length seed = 5 \<and>
      collection (snd (list_categories (Some h) s)) ''coursecategory'' =
        map (\<lambda>(i, d). (''_id'', ObjectId i) # d)
          (enumerate (next_id s) (map CourseCategory_model_dump seed)) \<and>
      length (collection (snd (list_categories (Some h) s)) ''coursecategory'') = 5 \<and>
      list_categories (Some h) (snd (list_categories (Some h) s)) =
        (Inr \<lparr>items = map CourseCategory_model_dump seed\<rparr>, snd (list_categories (Some h) s))) \<and>
   (collection s ''staff'' = [] \<longrightarrow>
      fst (staff_list (Some h) s) = Inr \<lparr>items = map Staff_model_dump team\<rparr> \<and>
      length team = 3 \<and>
      collection (snd (staff_list (Some h) s)) ''staff'' =
        map (\<lambda>(i, d). (''_id'', ObjectId i) # d)
          (enumerate (next_id s) (map Staff_model_dump team)) \<and>
      length (collection (snd (staff_list (Some h) s)) ''staff'') = 3 \<and>
      staff_list (Some h) (snd (staff_list (Some h) s)) =
        (Inr \<lparr>items = map Staff_model_dump team\<rparr>, snd (staff_list (Some h) s)))"
proof (intro conjI impI)
  assume em: "collection s ''coursecategory'' = []"
  from ensure_categories_seeded_empty [OF assms em, of h] obtain s' where
    run: "ensure_categories_seeded (Some h) s = (Inr (map CourseCategory_model_dump seed), s')"
    and hs': "healthy s'"
    and col: "collection s' ''coursecategory'' =
             map (\<lambda>(i, d). (''_id'', ObjectId i) # d)
               (enumerate (next_id s) (map CourseCategory_model_dump seed))"
    by blast
  from run have first: "list_categories (Some h) s =
      (Inr \<lparr>items = map CourseCategory_model_dump seed\<rparr>, s')"
    by (simp add: list_categories_def)
  from col have len: "length (collection s' ''coursecategory'') = 5"
    by (simp add: length_seed)
  then have ne: "collection s' ''coursecategory'' \<noteq> []" by auto
  have proj: "map without_id (collection s' ''coursecategory'') = map CourseCategory_model_dump seed"
    unfolding col by (rule without_id_assigned [OF seed_has_no_id])
  from ensure_categories_seeded_nonempty_healthy [OF ne hs', of h] proj
  have second: "list_categories (Some h) s' =
      (Inr \<lparr>items = map CourseCategory_model_dump seed\<rparr>, s')"
    by (simp add: list_categories_def)
  show "fst (list_categories (Some h) s) = Inr \<lparr>items = map CourseCategory_model_dump seed\<rparr>"
    using first by simp
  show "length seed = 5" by (rule length_seed)
  show "collection (snd (list_categories (Some h) s)) ''coursecategory'' =
        map (\<lambda>(i, d). (''_id'', ObjectId i) # d)
          (enumerate (next_id s) (map CourseCategory_model_dump seed))"
    using first col by simp
  show "length (collection (snd (list_categories (Some h) s)) ''coursecategory'') = 5"
    using first len by simp
  show "list_categories (Some h) (snd (list_categories (Some h) s)) =
        (Inr \<lparr>items = map CourseCategory_model_dump seed\<rparr>, snd (list_categories (Some h) s))"
    using first second by simp
next
  assume em: "collection s ''staff'' = []"
  from ensure_staff_seeded_empty [OF assms em, of h] obtain s' where
    run: "ensure_staff_seeded (Some h) s = (Inr (map Staff_model_dump team), s')"
    and hs': "healthy s'"
    and col: "collection s' ''staff'' =
             map (\<lambda>(i, d). (''_id'', ObjectId i) # d)
               (enumerate (next_id s) (map Staff_model_dump team))"
    by blast
  from run have first: "staff_list (Some h) s = (Inr \<lparr>items = map Staff_model_dump team\<rparr>, s')"
    by (simp add: staff_list_def)
  from col have len: "length (collection s' ''staff'') = 3"
    by (simp add: length_team)
  then have ne: "collection s' ''staff'' \<noteq> []" by auto
  have proj: "map without_id (collection s' ''staff'') = map Staff_model_dump team"
    unfolding col by (rule without_id_assigned [OF team_has_no_id])
  from ensure_staff_seeded_nonempty_healthy [OF ne hs', of h] proj
  have second: "staff_list (Some h) s' = (Inr \<lparr>items = map Staff_model_dump team\<rparr>, s')"
    by (simp add: staff_list_def)
  show "fst (staff_list (Some h) s) = Inr \<lparr>items = map Staff_model_dump team\<rparr>"
    using first by simp
  show "length team = 3" by (rule length_team)
  show "collection (snd (staff_list (Some h) s)) ''staff'' =
        map (\<lambda>(i, d). (''_id'', ObjectId i) # d)
          (enumerate (next_id s) (map Staff_model_dump team))"
    using first col by simp
  show "length (collection (snd (staff_list (Some h) s)) ''staff'') = 3"
    using first len by simp
  show "staff_list (Some h) (snd (staff_list (Some h) s)) =
        (Inr \<lparr>items = map Staff_model_dump team\<rparr>, snd (staff_list (Some h) s))"
    using first second by simp
qed

theorem first_list_call_seeds_witness:
  "healthy \<lparr>colls = [], next_id = 0, pending = []\<rparr> \<and>
   collection \<lparr>colls = [], next_id = 0, pending = []\<rparr> ''coursecategory'' = [] \<and>
   collection \<lparr>colls = [], next_id = 0, pending = []\<rparr> ''staff'' = [] \<and>
   fst (list_categories (Some \<lparr>truth = Inr True\<rparr>) \<lparr>colls = [], next_id = 0, pending = []\<rparr>) =
     Inr \<lparr>items = map CourseCategory_model_dump seed\<rparr> \<and>
   length (collection (snd (list_categories (Some \<lparr>truth = Inr True\<rparr>)
       \<lparr>colls = [], next_id = 0, pending = []\<rparr>)) ''coursecategory'') = 5 \<and>
   fst (staff_list (Some \<lparr>truth = Inr True\<rparr>) \<lparr>colls = [], next_id = 0, pending = []\<rparr>) =
     Inr \<lparr>items = map Staff_model_dump team\<rparr> \<and>
   length (collection (snd (staff_list (Some \<lparr>truth = Inr True\<rparr>)
       \<lparr>colls = [], next_id = 0, pending = []\<rparr>)) ''staff'') = 3"
  using first_list_call_seeds [of "\<lparr>colls = [], next_id = 0, pending = []\<rparr>" "\<lparr>truth = Inr True\<rparr>"]
  by (simp add: healthy_def collection_def)

section \<open>Category detail lookup\<close>

lemma find_one_healthy:
  "healthy s \<Longrightarrow> find_one n f v s =
     (Inr (map_option without_id (find (matches f v) (collection s n))), s)"
  by (simp add: find_one_def round_trip_healthy)

lemma matches_slug_dump:
  "matches ''slug'' v ((''_id'', x) # CourseCategory_model_dump c) = (slug c = v)"
  by (auto simp: CourseCategory_model_dump_def)

lemma find_assigned_slug:
  "distinct (map slug cs) \<Longrightarrow> c \<in> set cs \<Longrightarrow>
   \<exists>i. find (matches ''slug'' (slug c))
          (map (\<lambda>(i, d). (''_id'', ObjectId i) # d) (enumerate k (map CourseCategory_model_dump cs))) =
        Some ((''_id'', ObjectId i) # CourseCategory_model_dump c)"
proof (induction cs arbitrary: k)
  case Nil
  then show ?case by simp
next
  case (Cons a cs)
  show ?case
  proof (cases "slug a = slug c")
    case True
    with Cons.prems have "a = c" by force
    then show ?thesis by (simp add: matches_slug_dump del: matches.simps)
  next
    case False
    with Cons.prems have "distinct (map slug cs)" "c \<in> set cs" by auto
    from Cons.IH [OF this, of "Suc k"] False show ?thesis
      by (simp add: matches_slug_dump del: matches.simps)
  qed
qed

lemma find_assigned_no_slug:
  "v \<notin> slug ` set cs \<Longrightarrow>
   find (matches ''slug'' v)
          (map (\<lambda>(i, d). (''_id'', ObjectId i) # d) (enumerate k (map CourseCategory_model_dump cs))) = None"
  by (induction cs arbitrary: k) (auto simp: matches_slug_dump simp del: matches.simps)

lemma distinct_seed_slugs: "distinct (map slug seed)"
  by (simp add: seed_def)

lemma without_id_dump:
  "without_id ((''_id'', x) # CourseCategory_model_dump c) = CourseCategory_model_dump c"
  by (simp add: without_id_def CourseCategory_model_dump_def)

lemma dump_not_empty: "CourseCategory_model_dump c \<noteq> []"
  by (simp add: CourseCategory_model_dump_def)

lemma category_detail_seeded:
  assumes hs: "healthy s" and tr: "truth h = Inr True"
    and em: "collection s ''coursecategory'' = []" and mem: "c \<in> set seed"
  shows "fst (category_detail (Some h) (slug c) s) = Inr (CourseCategory_model_dump c)"
proof -
  from ensure_categories_seeded_empty [OF hs em, of h] obtain s' where
    run: "ensure_categories_seeded (Some h) s = (Inr (map CourseCategory_model_dump seed), s')"
    and hs': "healthy s'"
    and col: "collection s' ''coursecategory'' =
             map (\<lambda>(i, d). (''_id'', ObjectId i) # d)
               (enumerate (next_id s) (map CourseCategory_model_dump seed))"
    by blast
  from find_assigned_slug [OF distinct_seed_slugs mem, of "next_id s"] col obtain i where
    "find (matches ''slug'' (slug c)) (collection s' ''coursecategory'') =
       Some ((''_id'', ObjectId i) # CourseCategory_model_dump c)"
    by auto
  with hs' have "find_one ''coursecategory'' ''slug'' (slug c) s' =
      (Inr (Some (CourseCategory_model_dump c)), s')"
    by (simp add: find_one_healthy without_id_dump del: matches.simps)
  with run tr show ?thesis
    by (simp add: category_detail_def bool_db_def dump_not_empty)
qed

lemma category_detail_not_found:
  assumes hs: "healthy s" and tr: "truth h = Inr True"
    and seeds: "collection s ''coursecategory'' = [] \<longrightarrow> sl \<notin> slug ` set seed"
    and nomatch: "\<forall>d \<in> set (collection s ''coursecategory''). \<not> matches ''slug'' sl d"
  shows "fst (category_detail (Some h) sl s) = Inl (HTTPException 404 ''Category not found'')"
proof (cases "collection s ''coursecategory'' = []")
  case True
  from ensure_categories_seeded_empty [OF hs True, of h] obtain s' where
    run: "ensure_categories_seeded (Some h) s = (Inr (map CourseCategory_model_dump seed), s')"
    and hs': "healthy s'"
    and col: "collection s' ''coursecategory'' =
             map (\<lambda>(i, d). (''_id'', ObjectId i) # d)
               (enumerate (next_id s) (map CourseCategory_model_dump seed))"
    by blast
  from seeds True have "sl \<notin> slug ` set seed" by simp
  from find_assigned_no_slug [OF this, of "next_id s"] col
  have "find (matches ''slug'' sl) (collection s' ''coursecategory'') = None" by simp
  with hs' have "find_one ''coursecategory'' ''slug'' sl s' = (Inr None, s')"
    by (simp add: find_one_healthy del: matches.simps)
  with run tr show ?thesis
    by (simp add: category_detail_def bool_db_def)
next
  case False
  from ensure_categories_seeded_nonempty_healthy [OF False hs, of h]
  have run: "ensure_categories_seeded (Some h) s =
      (Inr (map without_id (collection s ''coursecategory'')), s)" .
  from nomatch have "find (matches ''slug'' sl) (collection s ''coursecategory'') = None"
    by (simp add: find_None_iff del: matches.simps)
  with hs have "find_one ''coursecategory'' ''slug'' sl s = (Inr None, s)"
    by (simp add: find_one_healthy del: matches.simps)
  with run tr show ?thesis
    by (simp add: category_detail_def bool_db_def)
qed

lemma category_detail_store_error:
  "category_detail (Some h) sl (s\<lparr>pending := Some m # rest\<rparr>) =
     (Inl (HTTPException 500 m), s\<lparr>pending := rest\<rparr>)"
  by (simp add: category_detail_def ensure_categories_seeded_def count_documents_def round_trip_fails)

lemma category_detail_truth_raises:
  assumes hs: "healthy s" and tr: "truth h = Inl (Exception m)"
  shows "fst (category_detail (Some h) sl s) = Inl (HTTPException 500 m)"
proof (cases "collection s ''coursecategory'' = []")
  case True
  from ensure_categories_seeded_empty [OF hs True, of h] obtain s' where
    run: "ensure_categories_seeded (Some h) s = (Inr (map CourseCategory_model_dump seed), s')"
    by blast
  with tr show ?thesis by (simp add: category_detail_def bool_db_def)
next
  case False
  from ensure_categories_seeded_nonempty_healthy [OF False hs, of h] tr show ?thesis
    by (simp add: category_detail_def bool_db_def)
qed

lemma category_detail_present:
  assumes hs: "healthy s" and tr: "truth h = Inr True"
    and ne: "collection s ''coursecategory'' \<noteq> []"
    and hit: "find (matches ''slug'' sl) (collection s ''coursecategory'') = Some d"
    and full: "without_id d \<noteq> []"
  shows "category_detail (Some h) sl s = (Inr (without_id d), s)"
proof -
  from ensure_categories_seeded_nonempty_healthy [OF ne hs, of h]
  have run: "ensure_categories_seeded (Some h) s =
      (Inr (map without_id (collection s ''coursecategory'')), s)" .
  from hs hit have "find_one ''coursecategory'' ''slug'' sl s = (Inr (Some (without_id d)), s)"
    by (simp add: find_one_healthy del: matches.simps)
  with run tr full show ?thesis
    by (simp add: category_detail_def bool_db_def)
qed

text \<open>
  What the lookup does through a handle that tests true, on a store whose operations
  succeed: the lookup of a slug of the seed catalog on an empty collection seeds the
  collection and returns the record of that slug; on a collection that holds records it
  returns the first record with that slug; a slug that matches no record (and, when the
  collection is empty, is not in the seed catalog) raises the not-found signal, status
  404. An error of the store raises status 500 with the text of the error.
\<close>

lemma category_detail_truthy_handle:
  assumes "healthy s" and "truth h = Inr True"
  shows
  "(collection s ''coursecategory'' = [] \<and> c \<in> set seed \<longrightarrow>
      fst (category_detail (Some h) (slug c) s) = Inr (CourseCategory_model_dump c)) \<and>
   (collection s ''coursecategory'' \<noteq> [] \<and>
    find (matches ''slug'' sl) (collection s ''coursecategory'') = Some d \<and> without_id d \<noteq> [] \<longrightarrow>
      category_detail (Some h) sl s = (Inr (without_id d), s)) \<and>
   ((collection s ''coursecategory'' = [] \<longrightarrow> sl \<notin> slug ` set seed) \<and>
    (\<forall>d \<in> set (collection s ''coursecategory''). \<not> matches ''slug'' sl d) \<longrightarrow>
      fst (category_detail (Some h) sl s) = Inl (HTTPException 404 ''Category not found'')) \<and>
   category_detail (Some h) sl (s\<lparr>pending := Some m # rest\<rparr>) =
     (Inl (HTTPException 500 m), s\<lparr>pending := rest\<rparr>)"
  using category_detail_seeded [OF assms, of c] category_detail_present [OF assms, of sl d]
    category_detail_not_found [OF assms, of sl] category_detail_store_error
  by blast

lemma category_detail_truthy_handle_example:
  "healthy \<lparr>colls = [], next_id = 0, pending = []\<rparr> \<and>
   truth \<lparr>truth = Inr True\<rparr> = Inr True \<and>
   collection \<lparr>colls = [], next_id = 0, pending = []\<rparr> ''coursecategory'' = [] \<and>
   \<lparr>slug = ''robotics'', title = ''Robotics'',
     blurb = ''Program and control robots with sensors, motion, and autonomy.'',
     highlights = Some [''ROS Basics'', ''Sensors & Control'', ''Path Planning''],
     color = Some ''#0ea5e9'', accent = Some ''#38bdf8''\<rparr> \<in> set seed \<and>
   fst (category_detail (Some \<lparr>truth = Inr True\<rparr>) ''robotics''
          \<lparr>colls = [], next_id = 0, pending = []\<rparr>) =
     Inr [(''slug'', Str ''robotics''), (''title'', Str ''Robotics''),
          (''blurb'', Str ''Program and control robots with sensors, motion, and autonomy.''),
          (''highlights'', Arr [Str ''ROS Basics'', Str ''Sensors & Control'', Str ''Path Planning'']),
          (''color'', Str ''#0ea5e9''), (''accent'', Str ''#38bdf8'')] \<and>
   fst (category_detail (Some \<lparr>truth = Inr True\<rparr>) ''cooking''
          \<lparr>colls = [], next_id = 0, pending = []\<rparr>) =
     Inl (HTTPException 404 ''Category not found'')"
  using category_detail_truthy_handle
    [of "\<lparr>colls = [], next_id = 0, pending = []\<rparr>" "\<lparr>truth = Inr True\<rparr>"
        "\<lparr>slug = ''robotics'', title = ''Robotics'',
          blurb = ''Program and control robots with sensors, motion, and autonomy.'',
          highlights = Some [''ROS Basics'', ''Sensors & Control'', ''Path Planning''],
          color = Some ''#0ea5e9'', accent = Some ''#38bdf8''\<rparr>"
        "''cooking''"]
  by (simp add: healthy_def collection_def seed_def CourseCategory_model_dump_def
      opt_str_def opt_strs_def)

text \<open>
  Claim C4: the lookup of a slug of the seed catalog returns its record, and the lookup
  of a slug that matches no record raises the not-found signal, status 404, which differs
  from the status 500 of a store error. The code does not do this for a handle of the
  MongoDB driver. \<open>category_detail\<close> tests the truth value of \<open>db\<close> (\<open>if db\<close>), where the
  seeders, \<open>subscribe\<close> and \<open>test_database\<close> compare \<open>db\<close> with \<open>None\<close>; the truth test
  of a database handle of the driver raises. On a configured, empty store whose
  operations succeed the list route seeds and returns the five categories, while the
  lookup of the seed slug "robotics" raises status 500, and so does the lookup of "cooking",
  which matches no record.
\<close>

theorem category_detail_truth_test:
  "fst (list_categories
          (Some \<lparr>truth = Inl (Exception 
            ''Database objects do not implement truth value testing or bool(). Please compare with None instead: database is not None'')\<rparr>)
          \<lparr>colls = [], next_id = 0, pending = []\<rparr>) =
     Inr \<lparr>items = map CourseCategory_model_dump seed\<rparr> \<and>
   fst (category_detail
          (Some \<lparr>truth = Inl (Exception 
            ''Database objects do not implement truth value testing or bool(). Please compare with None instead: database is not None'')\<rparr>)
          ''robotics'' \<lparr>colls = [], next_id = 0, pending = []\<rparr>) =
     Inl (HTTPException 500 
            ''Database objects do not implement truth value testing or bool(). Please compare with None instead: database is not None'') \<and>
   fst (category_detail
          (Some \<lparr>truth = Inl (Exception 
            ''Database objects do not implement truth value testing or bool(). Please compare with None instead: database is not None'')\<rparr>)
          ''cooking'' \<lparr>colls = [], next_id = 0, pending = []\<rparr>) =
     Inl (HTTPException 500 
            ''Database objects do not implement truth value testing or bool(). Please compare with None instead: database is not None'')"
proof -
  let ?h = "\<lparr>truth = Inl (Exception 
            ''Database objects do not implement truth value testing or bool(). Please compare with None instead: database is not None'')\<rparr>"
  let ?s = "\<lparr>colls = [], next_id = 0, pending = []\<rparr>"
  have hs: "healthy ?s" by (simp add: healthy_def)
  have em: "collection ?s ''coursecategory'' = []" by (simp add: collection_def)
  have tr: "truth ?h = Inl (Exception 
            ''Database objects do not implement truth value testing or bool(). Please compare with None instead: database is not None'')" by simp
  from ensure_categories_seeded_empty [OF hs em, of ?h]
  have "fst (list_categories (Some ?h) ?s) = Inr \<lparr>items = map CourseCategory_model_dump seed\<rparr>"
    by (auto simp: list_categories_def)
  moreover note category_detail_truth_raises [OF hs tr, of "''robotics''"]
    category_detail_truth_raises [OF hs tr, of "''cooking''"]
  ultimately show ?thesis by blast
qed

section \<open>Contact intake\<close>

lemma short_message_rejected:
  assumes "length m < 10"
  shows "post_contact ev db n e m t s = (Inl (ContactMessage_errors ev n e m), s) \<and>
         string_too_short ''message'' \<in> set (ContactMessage_errors ev n e m)"
  using assms
  by (auto simp: post_contact_def ContactMessage_validate_def ContactMessage_errors_def
      split: list.splits option.splits)

lemma valid_message_accepted:
  assumes "2 \<le> length n" and "ev e = Some e'" and "10 \<le> length m" and "length m \<le> 2000"
  shows "ContactMessage_validate ev n e m t =
           Inr \<lparr>contact_name = n, contact_email = e', message = m, topic = t\<rparr>"
  using assms by (simp add: ContactMessage_validate_def ContactMessage_errors_def)

lemma contact_healthy:
  assumes "healthy s"
  shows "contact (Some h) msg s =
     (Inr \<lparr>status = ''ok'', detail = ''Message received. We'' @ [CHR 0x27] @ ''ll be in touch!''\<rparr>,
      (put_collection ''contactmessage''
         (collection s ''contactmessage'' @
            [(''_id'', ObjectId (next_id s)) # ContactMessage_model_dump msg]) s)
        \<lparr>next_id := Suc (next_id s)\<rparr>)"
  using assms by (simp add: contact_def create_document_def insert_one_healthy)


text \<open>
  Claim C6. A contact form whose message has 9 characters is rejected by validation,
  with a "too short" error on the message, and the store is not touched. A form whose
  message has 10 characters (any length from 10 to 2000), whose name has at least 2
  characters and whose address is valid is accepted; on a store whose operations
  succeed each submission appends a new record with a fresh \<open>_id\<close>. Submitting the
  same content twice leaves two records, equal in content and different in \<open>_id\<close>:
  there is no dedup.
\<close>

theorem contact_submission:
  "(length m = 9 \<longrightarrow>
      post_contact ev db n e m t s = (Inl (ContactMessage_errors ev n e m), s) \<and>
      string_too_short ''message'' \<in> set (ContactMessage_errors ev n e m)) \<and>
   (2 \<le> length n \<and> ev e = Some e' \<and> 10 \<le> length m \<and> length m \<le> 2000 \<and> healthy s \<longrightarrow>
      fst (post_contact ev (Some h) n e m t s) =
        Inr (Inr \<lparr>status = ''ok'',
                  detail = ''Message received. We'' @ [CHR 0x27] @ ''ll be in touch!''\<rparr>) \<and>
      collection (snd (post_contact ev (Some h) n e m t s)) ''contactmessage'' =
        collection s ''contactmessage'' @
          [(''_id'', ObjectId (next_id s)) #
             ContactMessage_model_dump
               \<lparr>contact_name = n, contact_email = e', message = m, topic = t\<rparr>] \<and>
      fst (post_contact ev (Some h) n e m t (snd (post_contact ev (Some h) n e m t s))) =
        Inr (Inr \<lparr>status = ''ok'',
                  detail = ''Message received. We'' @ [CHR 0x27] @ ''ll be in touch!''\<rparr>) \<and>
      collection (snd (post_contact ev (Some h) n e m t
                    (snd (post_contact ev (Some h) n e m t s)))) ''contactmessage'' =
        collection s ''contactmessage'' @
          [(''_id'', ObjectId (next_id s)) #
             ContactMessage_model_dump
               \<lparr>contact_name = n, contact_email = e', message = m, topic = t\<rparr>,
           (''_id'', ObjectId (Suc (next_id s))) #
             ContactMessage_model_dump
               \<lparr>contact_name = n, contact_email = e', message = m, topic = t\<rparr>])"
proof (intro conjI impI)
  assume "length m = 9"
  then have short: "length m < 10" by simp
  from short_message_rejected [OF short]
  show "post_contact ev db n e m t s = (Inl (ContactMessage_errors ev n e m), s)"
    and "string_too_short ''message'' \<in> set (ContactMessage_errors ev n e m)"
    by blast+
next
  assume ok: "2 \<le> length n \<and> ev e = Some e' \<and> 10 \<le> length m \<and> length m \<le> 2000 \<and> healthy s"
  let ?msg = "\<lparr>contact_name = n, contact_email = e', message = m, topic = t\<rparr>"
  let ?s1 = "(put_collection ''contactmessage''
         (collection s ''contactmessage'' @
            [(''_id'', ObjectId (next_id s)) # ContactMessage_model_dump ?msg]) s)
        \<lparr>next_id := Suc (next_id s)\<rparr>"
  let ?reply = "\<lparr>status = ''ok'', detail = ''Message received. We'' @ [CHR 0x27] @ ''ll be in touch!''\<rparr>"
  from ok have valid: "ContactMessage_validate ev n e m t = Inr ?msg"
    by (simp add: valid_message_accepted)
  from ok have hs: "healthy s" by simp
  then have hs1: "healthy ?s1" by simp
  from valid contact_healthy [OF hs, of h ?msg]
  have first: "post_contact ev (Some h) n e m t s = (Inr (Inr ?reply), ?s1)"
    by (simp add: post_contact_def)
  from valid contact_healthy [OF hs1, of h ?msg]
  have second: "post_contact ev (Some h) n e m t ?s1 =
      (Inr (Inr ?reply),
       (put_collection ''contactmessage''
         (collection ?s1 ''contactmessage'' @
            [(''_id'', ObjectId (next_id ?s1)) # ContactMessage_model_dump ?msg]) ?s1)
        \<lparr>next_id := Suc (next_id ?s1)\<rparr>)"
    by (simp add: post_contact_def)
  show "fst (post_contact ev (Some h) n e m t s) = Inr (Inr ?reply)"
    using first by simp
  show "collection (snd (post_contact ev (Some h) n e m t s)) ''contactmessage'' =
        collection s ''contactmessage'' @
          [(''_id'', ObjectId (next_id s)) # ContactMessage_model_dump ?msg]"
    using first by (simp add: collection_put_collection)
  show "fst (post_contact ev (Some h) n e m t (snd (post_contact ev (Some h) n e m t s))) =
        Inr (Inr ?reply)"
    using first second by simp
  show "collection (snd (post_contact ev (Some h) n e m t
                    (snd (post_contact ev (Some h) n e m t s)))) ''contactmessage'' =
        collection s ''contactmessage'' @
          [(''_id'', ObjectId (next_id s)) # ContactMessage_model_dump ?msg,
           (''_id'', ObjectId (Suc (next_id s))) # ContactMessage_model_dump ?msg]"
    using first second by (simp add: collection_put_collection)
qed

theorem contact_submission_witness:
  "length ''123456789'' = 9 \<and>
   post_contact (\<lambda>a. Some a) (Some \<lparr>truth = Inr True\<rparr>) ''Ada'' ''ada@example.org'' ''123456789'' None
       \<lparr>colls = [], next_id = 0, pending = []\<rparr> =
     (Inl [string_too_short ''message''], \<lparr>colls = [], next_id = 0, pending = []\<rparr>) \<and>
   length ''1234567890'' = 10 \<and> healthy \<lparr>colls = [], next_id = 0, pending = []\<rparr> \<and>
   collection (snd (post_contact (\<lambda>a. Some a) (Some \<lparr>truth = Inr True\<rparr>) ''Ada'' ''ada@example.org''
       ''1234567890'' None
       (snd (post_contact (\<lambda>a. Some a) (Some \<lparr>truth = Inr True\<rparr>) ''Ada'' ''ada@example.org''
          ''1234567890'' None \<lparr>colls = [], next_id = 0, pending = []\<rparr>)))) ''contactmessage'' =
     [[(''_id'', ObjectId 0), (''name'', Str ''Ada''), (''email'', Str ''ada@example.org''),
       (''message'', Str ''1234567890''), (''topic'', Null)],
      [(''_id'', ObjectId 1), (''name'', Str ''Ada''), (''email'', Str ''ada@example.org''),
       (''message'', Str ''1234567890''), (''topic'', Null)]]"
  using contact_submission
      [of "''123456789''" "\<lambda>a. Some a" "Some \<lparr>truth = Inr True\<rparr>" "''Ada''" "''ada@example.org''"
          None "\<lparr>colls = [], next_id = 0, pending = []\<rparr>"]
    contact_submission
      [of "''1234567890''" "\<lambda>a. Some a" None "''Ada''" "''ada@example.org''"
          None "\<lparr>colls = [], next_id = 0, pending = []\<rparr>" "''ada@example.org''"
          "\<lparr>truth = Inr True\<rparr>"]
  by (simp add: healthy_def collection_def ContactMessage_errors_def ContactMessage_model_dump_def
      opt_str_def)

section \<open>The subscription upsert\<close>

lemma map_of_set_subscription:
  "map_of (set_fields (Subscription_model_dump b @ [(''updated_at'', Datetime t)]) d) =
     (map_of d)(''email'' \<mapsto> Str (email b), ''name'' \<mapsto> opt_str (subscriber_name b),
       ''interests'' \<mapsto> opt_strs (interests b), ''updated_at'' \<mapsto> Datetime t)"
  by (simp add: Subscription_model_dump_def update_conv')

lemma matches_after_set:
  "matches ''email'' v (set_fields (Subscription_model_dump b @ [(''updated_at'', Datetime t)]) d) =
     (v = email b)"
  by (auto simp: map_of_set_subscription)

lemma filter_update_first:
  "length (filter p xs) \<le> 1 \<Longrightarrow> find p xs = Some x \<Longrightarrow> p (f x) \<Longrightarrow>
   filter p (update_first p f xs) = [f x]"
proof (induction xs)
  case Nil
  then show ?case by simp
next
  case (Cons a xs)
  show ?case
  proof (cases "p a")
    case True
    with Cons.prems have "filter p xs = []" "a = x" by simp_all
    with True Cons.prems show ?thesis by simp
  next
    case False
    with Cons show ?thesis by simp
  qed
qed

lemma find_of_filter_single: "filter p xs = [x] \<Longrightarrow> find p xs = Some x"
  by (induction xs) (auto split: if_splits)

lemma filter_none: "find p xs = None \<Longrightarrow> filter p xs = []"
  by (induction xs) (auto split: if_splits)

lemma subscribe_step:
  assumes hs: "healthy s"
    and one: "length (filter (matches ''email'' (email b)) (collection s ''subscription'')) \<le> 1"
  shows "\<exists>s' d. subscribe (Some h) b t1 t2 s =
             (Inr \<lparr>status = ''ok'', detail = ''Subscribed successfully''\<rparr>, s') \<and>
           healthy s' \<and>
           filter (matches ''email'' (email b)) (collection s' ''subscription'') = [d] \<and>
           map_of d ''email'' = Some (Str (email b)) \<and>
           map_of d ''name'' = Some (opt_str (subscriber_name b)) \<and>
           map_of d ''interests'' = Some (opt_strs (interests b)) \<and>
           map_of d ''updated_at'' = Some (Datetime t1) \<and>
           map_of d ''created_at'' =
             (case find (matches ''email'' (email b)) (collection s ''subscription'') of
                None \<Rightarrow> Some (Datetime t2)
              | Some d0 \<Rightarrow> map_of d0 ''created_at'')"
proof (cases "find (matches ''email'' (email b)) (collection s ''subscription'')")
  case None
  let ?st = "Subscription_model_dump b @ [(''updated_at'', Datetime t1)]"
  let ?d = "set_fields [(''created_at'', Datetime t2)]
              (set_fields ?st [(''_id'', ObjectId (next_id s)), (''email'', Str (email b))])"
  let ?s' = "(put_collection ''subscription'' (collection s ''subscription'' @ [?d]) s)
               \<lparr>next_id := Suc (next_id s)\<rparr>"
  from hs None have run: "subscribe (Some h) b t1 t2 s =
      (Inr \<lparr>status = ''ok'', detail = ''Subscribed successfully''\<rparr>, ?s')"
    by (simp add: subscribe_def update_one_upsert_def round_trip_healthy del: matches.simps set_fields.simps)
  have m: "matches ''email'' (email b) ?d"
    by (simp add: update_conv' map_of_set_subscription)
  from filter_none [OF None] m
  have "filter (matches ''email'' (email b)) (collection ?s' ''subscription'') = [?d]"
    by (simp add: collection_put_collection del: matches.simps set_fields.simps)
  moreover from hs have "healthy ?s'" by simp
  moreover have "map_of ?d ''email'' = Some (Str (email b))"
    "map_of ?d ''name'' = Some (opt_str (subscriber_name b))"
    "map_of ?d ''interests'' = Some (opt_strs (interests b))"
    "map_of ?d ''updated_at'' = Some (Datetime t1)"
    "map_of ?d ''created_at'' = Some (Datetime t2)"
    by (simp_all add: update_conv' map_of_set_subscription)
  ultimately show ?thesis using run None by (intro exI [of _ ?s'] exI [of _ ?d]) simp
next
  case (Some d0)
  let ?st = "Subscription_model_dump b @ [(''updated_at'', Datetime t1)]"
  let ?d = "set_fields ?st d0"
  let ?s' = "put_collection ''subscription''
               (update_first (matches ''email'' (email b)) (set_fields ?st)
                  (collection s ''subscription'')) s"
  from hs Some have run: "subscribe (Some h) b t1 t2 s =
      (Inr \<lparr>status = ''ok'', detail = ''Subscribed successfully''\<rparr>, ?s')"
    by (simp add: subscribe_def update_one_upsert_def round_trip_healthy del: matches.simps set_fields.simps)
  have m: "matches ''email'' (email b) ?d"
    by (simp add: matches_after_set del: matches.simps)
  from filter_update_first [OF one Some, of "set_fields ?st"] m
  have "filter (matches ''email'' (email b)) (collection ?s' ''subscription'') = [?d]"
    by (simp add: collection_put_collection del: matches.simps set_fields.simps)
  moreover from hs have "healthy ?s'" by simp
  moreover have "map_of ?d ''email'' = Some (Str (email b))"
    "map_of ?d ''name'' = Some (opt_str (subscriber_name b))"
    "map_of ?d ''interests'' = Some (opt_strs (interests b))"
    "map_of ?d ''updated_at'' = Some (Datetime t1)"
    "map_of ?d ''created_at'' = map_of d0 ''created_at''"
    by (simp_all add: map_of_set_subscription)
  ultimately show ?thesis using run Some by (intro exI [of _ ?s'] exI [of _ ?d]) simp
qed

lemma subscribe_calls_same_email:
  assumes "healthy s"
    and "length (filter (matches ''email'' e) (collection s ''subscription'')) \<le> 1"
    and "\<forall>c \<in> set calls. email (fst c) = e"
  shows "healthy (snd (subscribe_calls (Some h) calls s)) \<and>
         length (filter (matches ''email'' e)
           (collection (snd (subscribe_calls (Some h) calls s)) ''subscription'')) \<le> 1 \<and>
         (calls \<noteq> [] \<longrightarrow>
            length (filter (matches ''email'' e)
              (collection (snd (subscribe_calls (Some h) calls s)) ''subscription'')) = 1) \<and>
         fst (subscribe_calls (Some h) calls s) =
           replicate (length calls) (Inr \<lparr>status = ''ok'', detail = ''Subscribed successfully''\<rparr>)"
  using assms
proof (induction calls arbitrary: s)
  case Nil
  then show ?case by simp
next
  case (Cons c calls)
  obtain b t u where c: "c = (b, t, u)" by (cases c)
  with Cons.prems have eb: "email b = e" by simp
  from subscribe_step [of s b h t u] Cons.prems(1,2) eb obtain s' d where
    run: "subscribe (Some h) b t u s =
             (Inr \<lparr>status = ''ok'', detail = ''Subscribed successfully''\<rparr>, s')"
    and hs': "healthy s'"
    and one: "filter (matches ''email'' e) (collection s' ''subscription'') = [d]"
    by auto
  from one have le: "length (filter (matches ''email'' e) (collection s' ''subscription'')) \<le> 1"
    by simp
  from Cons.prems(3) have rest: "\<forall>c \<in> set calls. email (fst c) = e" by simp
  note IH = Cons.IH [OF hs' le rest]
  show ?case
  proof (cases "calls = []")
    case True
    with c run hs' one show ?thesis by (simp del: matches.simps)
  next
    case False
    with IH c run show ?thesis by (simp add: split_beta del: matches.simps)
  qed
qed


text \<open>
  The hypothesis of the next theorem, at most one record for an address, is an invariant
  of \<open>subscribe\<close>: whatever the handle and whatever the store does, a call that starts
  with at most one record for every address ends with at most one record for every
  address.
\<close>

lemma filter_update_first_other:
  "(\<And>x. \<not> q (f x)) \<Longrightarrow> length (filter q (update_first p f xs)) \<le> length (filter q xs)"
  by (induction xs) auto

lemma subscribe_preserves_unique_addresses:
  assumes inv: "\<forall>e. length (filter (matches ''email'' e) (collection s ''subscription'')) \<le> 1"
  shows "length (filter (matches ''email'' e)
           (collection (snd (subscribe db b t u s)) ''subscription'')) \<le> 1"
proof (cases db)
  case None
  with inv show ?thesis by (simp add: subscribe_def del: matches.simps)
next
  case (Some h)
  let ?p = "matches ''email'' (email b)"
  let ?st = "Subscription_model_dump b @ [(''updated_at'', Datetime t)]"
  obtain out s1 where rt: "round_trip s = (out, s1)" by (cases "round_trip s")
  from round_trip_data [OF rt] have same: "collection s1 ''subscription'' = collection s ''subscription''"
    by (intro collection_cong) simp
  show ?thesis
  proof (cases out)
    case (Some m)
    with \<open>db = Some h\<close> rt same inv show ?thesis
      by (simp add: subscribe_def update_one_upsert_def del: matches.simps set_fields.simps)
  next
    case None
    show ?thesis
    proof (cases "find ?p (collection s ''subscription'')")
      case (Some d0)
      let ?xs' = "update_first ?p (set_fields ?st) (collection s ''subscription'')"
      from \<open>db = Some h\<close> rt \<open>out = None\<close> Some same
      have run: "collection (snd (subscribe db b t u s)) ''subscription'' = ?xs'"
        by (simp add: subscribe_def update_one_upsert_def collection_put_collection
            del: matches.simps set_fields.simps)
      show ?thesis
      proof (cases "e = email b")
        case True
        from inv have one: "length (filter ?p (collection s ''subscription'')) \<le> 1" by blast
        have m: "?p (set_fields ?st d0)" by (simp add: matches_after_set del: matches.simps)
        from filter_update_first
          [of ?p "collection s ''subscription''" d0 "set_fields ?st", OF one Some m] True run
        show ?thesis by (simp del: matches.simps set_fields.simps)
      next
        case False
        then have "\<And>x. \<not> matches ''email'' e (set_fields ?st x)"
          by (simp add: matches_after_set del: matches.simps)
        then have a: "length (filter (matches ''email'' e) ?xs') \<le>
            length (filter (matches ''email'' e) (collection s ''subscription''))"
          by (rule filter_update_first_other)
        from inv have b: "length (filter (matches ''email'' e) (collection s ''subscription'')) \<le> 1"
          by blast
        show ?thesis unfolding run by (rule le_trans [OF a b])
      qed
    next
      case None
      let ?d = "set_fields [(''created_at'', Datetime u)]
              (set_fields ?st [(''_id'', ObjectId (next_id s1)), (''email'', Str (email b))])"
      from \<open>db = Some h\<close> rt \<open>out = None\<close> None same
      have run: "collection (snd (subscribe db b t u s)) ''subscription'' =
          collection s ''subscription'' @ [?d]"
        by (simp add: subscribe_def update_one_upsert_def collection_put_collection
            del: matches.simps set_fields.simps)
      have md: "matches ''email'' e ?d = (e = email b)"
        by (auto simp: update_conv' map_of_set_subscription)
      show ?thesis
      proof (cases "e = email b")
        case True
        with filter_none [OF None] run md show ?thesis
          by (simp del: matches.simps set_fields.simps)
      next
        case False
        with inv run md show ?thesis
          by (simp del: matches.simps set_fields.simps)
      qed
    qed
  qed
qed


lemma find_update_first:
  "find p xs = Some x \<Longrightarrow> p (f x) \<Longrightarrow> find p (update_first p f xs) = Some (f x)"
  by (induction xs) (auto split: if_splits)

lemma find_append_new: "find p xs = None \<Longrightarrow> p y \<Longrightarrow> find p (xs @ [y]) = Some y"
  by (induction xs) (auto split: if_splits)

text \<open>
  Claim C1, as amended. On a store whose operations succeed and that holds at most one
  subscription for the address \<open>e\<close> (none at first; the invariant shown above):
  after any non-empty sequence of \<open>subscribe\<close> calls for \<open>e\<close>, every call has
  succeeded and the collection holds exactly one record for \<open>e\<close>. After two
  submissions for \<open>e\<close>, the one record has the name and the interests of the second
  submission, its \<open>created_at\<close> is the one observed after the first submission, and
  its \<open>updated_at\<close> is the clock reading of the second call, where it was the clock
  reading of the first call before: it advances if and only if the second call reads a
  later time than the first. When there was no record at first, \<open>created_at\<close> is the
  clock reading of the first call.
\<close>

theorem subscribe_upsert:
  assumes "healthy s"
    and "length (filter (matches ''email'' e) (collection s ''subscription'')) \<le> 1"
  shows
  "(calls \<noteq> [] \<and> (\<forall>c \<in> set calls. email (fst c) = e) \<longrightarrow>
      length (filter (matches ''email'' e)
        (collection (snd (subscribe_calls (Some h) calls s)) ''subscription'')) = 1 \<and>
      fst (subscribe_calls (Some h) calls s) = replicate (length calls) (Inr \<lparr>status = ''ok'', detail = ''Subscribed successfully''\<rparr>)) \<and>
   (email b1 = e \<and> email b2 = e \<longrightarrow>
      (\<exists>d1 d2.
         filter (matches ''email'' e)
           (collection (snd (subscribe (Some h) b1 t1 u1 s)) ''subscription'') = [d1] \<and>
         filter (matches ''email'' e)
           (collection (snd (subscribe (Some h) b2 t2 u2 (snd (subscribe (Some h) b1 t1 u1 s))))
              ''subscription'') = [d2] \<and>
         map_of d2 ''email'' = Some (Str e) \<and>
         map_of d2 ''name'' = Some (opt_str (subscriber_name b2)) \<and>
         map_of d2 ''interests'' = Some (opt_strs (interests b2)) \<and>
         map_of d2 ''created_at'' = map_of d1 ''created_at'' \<and>
         map_of d1 ''updated_at'' = Some (Datetime t1) \<and>
         map_of d2 ''updated_at'' = Some (Datetime t2) \<and>
         (\<exists>a c. map_of d1 ''updated_at'' = Some (Datetime a) \<and>
                map_of d2 ''updated_at'' = Some (Datetime c) \<and> (a < c) = (t1 < t2)) \<and>
         (filter (matches ''email'' e) (collection s ''subscription'') = [] \<longrightarrow>
            map_of d1 ''created_at'' = Some (Datetime u1))))"
proof (intro conjI impI)
  assume a: "calls \<noteq> [] \<and> (\<forall>c \<in> set calls. email (fst c) = e)"
  with subscribe_calls_same_email [OF assms, of calls h]
  show "length (filter (matches ''email'' e)
        (collection (snd (subscribe_calls (Some h) calls s)) ''subscription'')) = 1"
    and "fst (subscribe_calls (Some h) calls s) = replicate (length calls) (Inr \<lparr>status = ''ok'', detail = ''Subscribed successfully''\<rparr>)"
    by blast+
next
  assume eq: "email b1 = e \<and> email b2 = e"
  from subscribe_step [of s b1 h t1 u1] assms eq obtain s1 d1 where
    run1: "subscribe (Some h) b1 t1 u1 s = (Inr \<lparr>status = ''ok'', detail = ''Subscribed successfully''\<rparr>, s1)"
    and hs1: "healthy s1"
    and one1: "filter (matches ''email'' e) (collection s1 ''subscription'') = [d1]"
    and upd1: "map_of d1 ''updated_at'' = Some (Datetime t1)"
    and cre1: "map_of d1 ''created_at'' =
             (case find (matches ''email'' e) (collection s ''subscription'') of
                None \<Rightarrow> Some (Datetime u1)
              | Some d0 \<Rightarrow> map_of d0 ''created_at'')"
    by auto
  from one1 have le1: "length (filter (matches ''email'' e) (collection s1 ''subscription'')) \<le> 1"
    by simp
  from find_of_filter_single [OF one1]
  have f1: "find (matches ''email'' e) (collection s1 ''subscription'') = Some d1" .
  from subscribe_step [of s1 b2 h t2 u2] hs1 le1 eq f1 obtain s2 d2 where
    run2: "subscribe (Some h) b2 t2 u2 s1 = (Inr \<lparr>status = ''ok'', detail = ''Subscribed successfully''\<rparr>, s2)"
    and one2: "filter (matches ''email'' e) (collection s2 ''subscription'') = [d2]"
    and fields: "map_of d2 ''email'' = Some (Str e)"
      "map_of d2 ''name'' = Some (opt_str (subscriber_name b2))"
      "map_of d2 ''interests'' = Some (opt_strs (interests b2))"
      "map_of d2 ''updated_at'' = Some (Datetime t2)"
      "map_of d2 ''created_at'' = map_of d1 ''created_at''"
    by auto
  have fresh: "filter (matches ''email'' e) (collection s ''subscription'') = [] \<longrightarrow>
      map_of d1 ''created_at'' = Some (Datetime u1)"
  proof
    assume "filter (matches ''email'' e) (collection s ''subscription'') = []"
    then have "find (matches ''email'' e) (collection s ''subscription'') = None"
      by (simp add: find_None_iff filter_empty_conv del: matches.simps)
    with cre1 show "map_of d1 ''created_at'' = Some (Datetime u1)" by simp
  qed
  from run1 run2 one1 one2 fields upd1 fresh
  show "\<exists>d1 d2.
         filter (matches ''email'' e)
           (collection (snd (subscribe (Some h) b1 t1 u1 s)) ''subscription'') = [d1] \<and>
         filter (matches ''email'' e)
           (collection (snd (subscribe (Some h) b2 t2 u2 (snd (subscribe (Some h) b1 t1 u1 s))))
              ''subscription'') = [d2] \<and>
         map_of d2 ''email'' = Some (Str e) \<and>
         map_of d2 ''name'' = Some (opt_str (subscriber_name b2)) \<and>
         map_of d2 ''interests'' = Some (opt_strs (interests b2)) \<and>
         map_of d2 ''created_at'' = map_of d1 ''created_at'' \<and>
         map_of d1 ''updated_at'' = Some (Datetime t1) \<and>
         map_of d2 ''updated_at'' = Some (Datetime t2) \<and>
         (\<exists>a c. map_of d1 ''updated_at'' = Some (Datetime a) \<and>
                map_of d2 ''updated_at'' = Some (Datetime c) \<and> (a < c) = (t1 < t2)) \<and>
         (filter (matches ''email'' e) (collection s ''subscription'') = [] \<longrightarrow>
            map_of d1 ''created_at'' = Some (Datetime u1))"
    by (intro exI [of _ d1] exI [of _ d2]) (simp del: matches.simps)
qed

theorem subscribe_upsert_witness:
  "healthy \<lparr>colls = [], next_id = 0, pending = []\<rparr> \<and>
   length (filter (matches ''email'' ''ada@example.org'')
     (collection \<lparr>colls = [], next_id = 0, pending = []\<rparr> ''subscription'')) \<le> 1 \<and>
   length (filter (matches ''email'' ''ada@example.org'')
     (collection (snd (subscribe_calls (Some \<lparr>truth = Inr True\<rparr>)
        [(\<lparr>email = ''ada@example.org'', subscriber_name = Some ''Ada'', interests = Some [''ai'']\<rparr>, 10, 11),
         (\<lparr>email = ''ada@example.org'', subscriber_name = Some ''A. L.'', interests = Some [''robotics'']\<rparr>, 20, 21)]
        \<lparr>colls = [], next_id = 0, pending = []\<rparr>)) ''subscription'')) = 1 \<and>
   collection (snd (subscribe (Some \<lparr>truth = Inr True\<rparr>)
       \<lparr>email = ''ada@example.org'', subscriber_name = Some ''A. L.'', interests = Some [''robotics'']\<rparr> 20 21
       (snd (subscribe (Some \<lparr>truth = Inr True\<rparr>)
          \<lparr>email = ''ada@example.org'', subscriber_name = Some ''Ada'', interests = Some [''ai'']\<rparr> 10 11
          \<lparr>colls = [], next_id = 0, pending = []\<rparr>)))) ''subscription'' =
     [[(''_id'', ObjectId 0), (''email'', Str ''ada@example.org''), (''name'', Str ''A. L.''),
       (''interests'', Arr [Str ''robotics'']), (''updated_at'', Datetime 20),
       (''created_at'', Datetime 11)]]"
  using subscribe_upsert
    [of "\<lparr>colls = [], next_id = 0, pending = []\<rparr>" "''ada@example.org''"
        "[(\<lparr>email = ''ada@example.org'', subscriber_name = Some ''Ada'', interests = Some [''ai'']\<rparr>, 10, 11),
          (\<lparr>email = ''ada@example.org'', subscriber_name = Some ''A. L.'', interests = Some [''robotics'']\<rparr>, 20, 21)]"
        "\<lparr>truth = Inr True\<rparr>"]
  by (simp add: healthy_def collection_def subscribe_def update_one_upsert_def round_trip_def
      put_collection_def Subscription_model_dump_def opt_str_def opt_strs_def)

text \<open>
  The claim as stated fails: \<open>subscribe\<close> writes whatever the clock reads. When the
  second call reads the same time as the first, the record takes the fields of the
  second submission and its \<open>updated_at\<close> stays where it was.
\<close>

theorem subscribe_updated_at_counterexample:
  "collection (snd (subscribe (Some \<lparr>truth = Inr True\<rparr>)
       \<lparr>email = ''ada@example.org'', subscriber_name = Some ''Ada'', interests = Some [''ai'']\<rparr> 10 10
       \<lparr>colls = [], next_id = 0, pending = []\<rparr>)) ''subscription'' =
     [[(''_id'', ObjectId 0), (''email'', Str ''ada@example.org''), (''name'', Str ''Ada''),
       (''interests'', Arr [Str ''ai'']), (''updated_at'', Datetime 10),
       (''created_at'', Datetime 10)]] \<and>
   collection (snd (subscribe (Some \<lparr>truth = Inr True\<rparr>)
       \<lparr>email = ''ada@example.org'', subscriber_name = Some ''A. L.'', interests = Some [''robotics'']\<rparr> 10 10
       (snd (subscribe (Some \<lparr>truth = Inr True\<rparr>)
          \<lparr>email = ''ada@example.org'', subscriber_name = Some ''Ada'', interests = Some [''ai'']\<rparr> 10 10
          \<lparr>colls = [], next_id = 0, pending = []\<rparr>)))) ''subscription'' =
     [[(''_id'', ObjectId 0), (''email'', Str ''ada@example.org''), (''name'', Str ''A. L.''),
       (''interests'', Arr [Str ''robotics'']), (''updated_at'', Datetime 10),
       (''created_at'', Datetime 10)]]"
  by (simp add: collection_def subscribe_def update_one_upsert_def round_trip_def
      put_collection_def Subscription_model_dump_def opt_str_def opt_strs_def)

text \<open>
  Claim C10. On a store whose operations succeed, every \<open>subscribe\<close> call leaves, as
  the first record for the address, a record whose name and interests are exactly those
  of the submission; a submission that omits the name or the interests stores null,
  whatever was stored before: the fields are replaced, not merged.
\<close>

theorem subscribe_replaces_fields:
  assumes "healthy s"
  shows "\<exists>s' d.
           subscribe (Some h) b t u s = (Inr \<lparr>status = ''ok'', detail = ''Subscribed successfully''\<rparr>, s') \<and>
           find (matches ''email'' (email b)) (collection s' ''subscription'') = Some d \<and>
           map_of d ''name'' = Some (opt_str (subscriber_name b)) \<and>
           map_of d ''interests'' = Some (opt_strs (interests b)) \<and>
           (subscriber_name b = None \<longrightarrow> map_of d ''name'' = Some Null) \<and>
           (interests b = None \<longrightarrow> map_of d ''interests'' = Some Null)"
proof (cases "find (matches ''email'' (email b)) (collection s ''subscription'')")
  case None
  let ?st = "Subscription_model_dump b @ [(''updated_at'', Datetime t)]"
  let ?d = "set_fields [(''created_at'', Datetime u)]
              (set_fields ?st [(''_id'', ObjectId (next_id s)), (''email'', Str (email b))])"
  let ?s' = "(put_collection ''subscription'' (collection s ''subscription'' @ [?d]) s)
               \<lparr>next_id := Suc (next_id s)\<rparr>"
  from assms None have run: "subscribe (Some h) b t u s = (Inr \<lparr>status = ''ok'', detail = ''Subscribed successfully''\<rparr>, ?s')"
    by (simp add: subscribe_def update_one_upsert_def round_trip_healthy
        del: matches.simps set_fields.simps)
  have m: "matches ''email'' (email b) ?d"
    by (simp add: update_conv' map_of_set_subscription)
  have col: "collection ?s' ''subscription'' = collection s ''subscription'' @ [?d]"
    by (simp add: collection_put_collection del: set_fields.simps)
  have fd: "find (matches ''email'' (email b)) (collection ?s' ''subscription'') = Some ?d"
    unfolding col
    by (rule find_append_new
        [of "matches ''email'' (email b)" "collection s ''subscription''" ?d, OF None m])
  have nm: "map_of ?d ''name'' = Some (opt_str (subscriber_name b))"
    and it: "map_of ?d ''interests'' = Some (opt_strs (interests b))"
    by (simp_all add: update_conv' map_of_set_subscription)
  from nm have nm0: "subscriber_name b = None \<longrightarrow> map_of ?d ''name'' = Some Null"
    by (simp add: opt_str_def)
  from it have it0: "interests b = None \<longrightarrow> map_of ?d ''interests'' = Some Null"
    by (simp add: opt_strs_def)
  show ?thesis
    by (rule exI [of _ ?s'], rule exI [of _ ?d]) (intro conjI run fd nm it nm0 it0)
next
  case (Some d0)
  let ?st = "Subscription_model_dump b @ [(''updated_at'', Datetime t)]"
  let ?d = "set_fields ?st d0"
  let ?s' = "put_collection ''subscription''
               (update_first (matches ''email'' (email b)) (set_fields ?st)
                  (collection s ''subscription'')) s"
  from assms Some have run: "subscribe (Some h) b t u s = (Inr \<lparr>status = ''ok'', detail = ''Subscribed successfully''\<rparr>, ?s')"
    by (simp add: subscribe_def update_one_upsert_def round_trip_healthy
        del: matches.simps set_fields.simps)
  have m: "matches ''email'' (email b) ?d"
    by (simp add: matches_after_set del: matches.simps)
  have col: "collection ?s' ''subscription'' =
      update_first (matches ''email'' (email b)) (set_fields ?st) (collection s ''subscription'')"
    by (simp add: collection_put_collection del: set_fields.simps)
  have fd: "find (matches ''email'' (email b)) (collection ?s' ''subscription'') = Some ?d"
    unfolding col
    by (rule find_update_first
        [of "matches ''email'' (email b)" "collection s ''subscription''" d0 "set_fields ?st",
         OF Some m])
  have nm: "map_of ?d ''name'' = Some (opt_str (subscriber_name b))"
    and it: "map_of ?d ''interests'' = Some (opt_strs (interests b))"
    by (simp_all add: map_of_set_subscription)
  from nm have nm0: "subscriber_name b = None \<longrightarrow> map_of ?d ''name'' = Some Null"
    by (simp add: opt_str_def)
  from it have it0: "interests b = None \<longrightarrow> map_of ?d ''interests'' = Some Null"
    by (simp add: opt_strs_def)
  show ?thesis
    by (rule exI [of _ ?s'], rule exI [of _ ?d]) (intro conjI run fd nm it nm0 it0)
qed

theorem subscribe_replaces_fields_witness:
  "healthy \<lparr>colls = [(''subscription'',
       [[(''_id'', ObjectId 0), (''email'', Str ''ada@example.org''), (''name'', Str ''Ada''),
         (''interests'', Arr [Str ''ai'']), (''updated_at'', Datetime 10),
         (''created_at'', Datetime 11)]])], next_id = 1, pending = []\<rparr> \<and>
   subscribe (Some \<lparr>truth = Inr True\<rparr>)
     \<lparr>email = ''ada@example.org'', subscriber_name = None, interests = None\<rparr> 20 21
     \<lparr>colls = [(''subscription'',
       [[(''_id'', ObjectId 0), (''email'', Str ''ada@example.org''), (''name'', Str ''Ada''),
         (''interests'', Arr [Str ''ai'']), (''updated_at'', Datetime 10),
         (''created_at'', Datetime 11)]])], next_id = 1, pending = []\<rparr> =
     (Inr \<lparr>status = ''ok'', detail = ''Subscribed successfully''\<rparr>,
      \<lparr>colls = [(''subscription'',
       [[(''_id'', ObjectId 0), (''email'', Str ''ada@example.org''), (''name'', Null),
         (''interests'', Null), (''updated_at'', Datetime 20),
         (''created_at'', Datetime 11)]])], next_id = 1, pending = []\<rparr>)"
  using subscribe_replaces_fields
    [of "\<lparr>colls = [(''subscription'',
       [[(''_id'', ObjectId 0), (''email'', Str ''ada@example.org''), (''name'', Str ''Ada''),
         (''interests'', Arr [Str ''ai'']), (''updated_at'', Datetime 10),
         (''created_at'', Datetime 11)]])], next_id = 1, pending = []\<rparr>"
        "\<lparr>truth = Inr True\<rparr>"
        "\<lparr>email = ''ada@example.org'', subscriber_name = None, interests = None\<rparr>" 20 21]
  by (simp add: healthy_def collection_def subscribe_def update_one_upsert_def round_trip_def
      put_collection_def Subscription_model_dump_def opt_str_def opt_strs_def)

section \<open>Subscribing without a database\<close>

text \<open>
  Claim C7, as amended. When no database is configured (\<open>db\<close> is \<open>None\<close>),
  \<open>subscribe\<close> makes no round trip to the store and leaves it unchanged; it raises
  \<open>HTTPException\<close> with status 500 and detail "Database not available". An error of
  the store on the write is reported with the same status 500, its detail being the
  text of that error: the two signals differ in the detail text only.
\<close>

theorem subscribe_without_database:
  "subscribe None body t_set t_insert s =
     (Inl (HTTPException 500 ''Database not available''), s) \<and>
   subscribe (Some h) body t_set t_insert (s\<lparr>pending := Some m # rest\<rparr>) =
     (Inl (HTTPException 500 m), s\<lparr>pending := rest\<rparr>)"
  by (simp add: subscribe_def update_one_upsert_def round_trip_fails)

text \<open>
  The claim as stated fails: the signal raised without a database is the very signal
  raised for a store that is configured and whose write fails with the same text.
\<close>

theorem subscribe_unavailable_counterexample:
  "fst (subscribe None \<lparr>email = ''a@b.co'', subscriber_name = None, interests = None\<rparr> 0 0
          \<lparr>colls = [], next_id = 0, pending = []\<rparr>) =
   fst (subscribe (Some \<lparr>truth = Inr True\<rparr>)
          \<lparr>email = ''a@b.co'', subscriber_name = None, interests = None\<rparr> 0 0
          \<lparr>colls = [], next_id = 0, pending = [Some ''Database not available'']\<rparr>)"
  by (simp add: subscribe_def update_one_upsert_def round_trip_def)

end
